theory Spec2Isabelle
  imports Complex_Main
begin

section \<open>Python values\<close>

text \<open>
  The metadata service answers with JSON, which \<^verbatim>\<open>r.json()\<close> turns into Python
  values: \<^verbatim>\<open>None\<close>, booleans, unbounded integers, floats, strings, lists and
  dictionaries with string keys. A float is a rational or one of the three non-finite
  values that \<^verbatim>\<open>json.loads\<close> accepts; a dictionary is an association list read with
  \<open>map_of\<close>.
\<close>

datatype pyfloat = Fin rat | PInf | NInf | NaN

datatype json =
    JNull
  | JBool bool
  | JInt int
  | JFloat pyfloat
  | JStr string
  | JArr "json list"
  | JObj "(string \<times> json) list"

datatype py_exception =
  AttributeError | TypeError | KeyError | ValueError | OSError | OverflowError

text \<open>Truth value of a Python object, as \<^verbatim>\<open>if x\<close>, \<^verbatim>\<open>x and y\<close>, \<^verbatim>\<open>x or y\<close> test it.\<close>

fun py_truthy :: "json \<Rightarrow> bool" where
  "py_truthy JNull = False"
| "py_truthy (JBool b) = b"
| "py_truthy (JInt i) = (i \<noteq> 0)"
| "py_truthy (JFloat f) = (f \<noteq> Fin 0)"
| "py_truthy (JStr s) = (s \<noteq> [])"
| "py_truthy (JArr xs) = (xs \<noteq> [])"
| "py_truthy (JObj kvs) = (kvs \<noteq> [])"

text \<open>\<^verbatim>\<open>m.get(k)\<close>: only a dictionary has the method; a missing key gives \<^verbatim>\<open>None\<close>.\<close>

fun py_get :: "json \<Rightarrow> string \<Rightarrow> py_exception + json" where
  "py_get (JObj kvs) k = Inr (case map_of kvs k of None \<Rightarrow> JNull | Some v \<Rightarrow> v)"
| "py_get _ k = Inl AttributeError"

text \<open>\<^verbatim>\<open>v == n\<close> for an integer \<open>n\<close>: numbers compare by value, \<^verbatim>\<open>True\<close> is 1 and
  \<^verbatim>\<open>False\<close> is 0, everything else is different from an integer.\<close>

fun py_eq_int :: "json \<Rightarrow> int \<Rightarrow> bool" where
  "py_eq_int (JInt i) n = (i = n)"
| "py_eq_int (JBool b) n = ((if b then 1 else 0) = n)"
| "py_eq_int (JFloat (Fin r)) n = (r = of_int n)"
| "py_eq_int _ n = False"

fun starts_with :: "string \<Rightarrow> string \<Rightarrow> bool" where
  "starts_with [] s = True"
| "starts_with (p # ps) [] = False"
| "starts_with (p # ps) (c # cs) = (p = c \<and> starts_with ps cs)"

fun substring_of :: "string \<Rightarrow> string \<Rightarrow> bool" where
  "substring_of p [] = (p = [])"
| "substring_of p (c # cs) = (starts_with p (c # cs) \<or> substring_of p cs)"

text \<open>\<^verbatim>\<open>k in v\<close> for a string \<open>k\<close>: key membership in a dictionary, element membership
  in a list, substring test in a string, \<^verbatim>\<open>TypeError\<close> otherwise.\<close>

fun py_in :: "string \<Rightarrow> json \<Rightarrow> py_exception + bool" where
  "py_in k (JObj kvs) = Inr (map_of kvs k \<noteq> None)"
| "py_in k (JArr xs) = Inr (JStr k \<in> set xs)"
| "py_in k (JStr s) = Inr (substring_of k s)"
| "py_in k _ = Inl TypeError"

text \<open>\<^verbatim>\<open>v[k]\<close> for a string \<open>k\<close>: lists and strings want integer indices.\<close>

fun py_subscript :: "json \<Rightarrow> string \<Rightarrow> py_exception + json" where
  "py_subscript (JObj kvs) k = (case map_of kvs k of None \<Rightarrow> Inl KeyError | Some v \<Rightarrow> Inr v)"
| "py_subscript _ k = Inl TypeError"

text \<open>\<^verbatim>\<open>for m in v\<close>: a list gives its elements, a dictionary its keys, a string its
  characters; nothing else is iterable.\<close>

fun py_iter :: "json \<Rightarrow> py_exception + json list" where
  "py_iter (JArr xs) = Inr xs"
| "py_iter (JObj kvs) = Inr (map (\<lambda>kv. JStr (fst kv)) kvs)"
| "py_iter (JStr s) = Inr (map (\<lambda>c. JStr [c]) s)"
| "py_iter _ = Inl TypeError"

section \<open>Metadata client\<close>

text \<open>
  The HTTP exchange of \<^verbatim>\<open>tmdb_get\<close> (\<^verbatim>\<open>session.get\<close>, \<^verbatim>\<open>raise_for_status\<close>,
  \<^verbatim>\<open>r.json()\<close>) happens outside the program. Its outcome is an input of the model:
  either a \<^verbatim>\<open>RequestException\<close> was raised (transport errors, an error status, a
  body that is not JSON), or a JSON body was parsed. The handler turns the exception
  into \<^verbatim>\<open>None\<close>.
\<close>

datatype http_outcome = RequestFailed | Body json

fun tmdb_get :: "http_outcome \<Rightarrow> json" where
  "tmdb_get (Body j) = j"
| "tmdb_get RequestFailed = JNull"

section \<open>Snapshot cache\<close>

text \<open>
  The cache directory maps a file name to what reading the file gives: a JSON value, or
  text that \<^verbatim>\<open>json.loads\<close> rejects. What happens to a write is decided outside the
  program as well: it succeeds, \<^verbatim>\<open>json.dumps\<close> raises, opening the file raises, or
  the write breaks off after the file was truncated.
\<close>

datatype file_content = Valid json | Unreadable

type_synonym cache = "string \<rightharpoonup> file_content"

datatype write_outcome = Written | DumpsRaises | OpenRaises | WriteRaises

definition cache_read :: "string \<Rightarrow> cache \<Rightarrow> json" where
  "cache_read file c =
     (case c file of
        None \<Rightarrow> JNull
      | Some Unreadable \<Rightarrow> JNull
      | Some (Valid j) \<Rightarrow> j)"

text \<open>\<^verbatim>\<open>file.write_text(json.dumps(data), encoding="utf-8")\<close>, before the handler.\<close>

fun write_text_dumps ::
  "write_outcome \<Rightarrow> string \<Rightarrow> json \<Rightarrow> cache \<Rightarrow> (py_exception + unit) \<times> cache" where
  "write_text_dumps Written file data c = (Inr (), c(file \<mapsto> Valid data))"
| "write_text_dumps DumpsRaises file data c = (Inl TypeError, c)"
| "write_text_dumps OpenRaises file data c = (Inl OSError, c)"
| "write_text_dumps WriteRaises file data c = (Inl OSError, c(file \<mapsto> Unreadable))"

text \<open>\<^verbatim>\<open>try: ... except Exception: pass\<close> around it.\<close>

definition cache_write ::
  "write_outcome \<Rightarrow> string \<Rightarrow> json \<Rightarrow> cache \<Rightarrow> (py_exception + unit) \<times> cache" where
  "cache_write w file data c =
     (case write_text_dumps w file data c of
        (Inl e, c') \<Rightarrow> (Inr (), c')
      | (Inr u, c') \<Rightarrow> (Inr (), c'))"

section \<open>Movie catalog service\<close>

text \<open>The test of the list comprehension:
  \<^verbatim>\<open>m.get("id") and m.get("title") and m.get("poster_path")\<close>.\<close>

definition complete :: "json \<Rightarrow> py_exception + bool" where
  "complete m =
     (case py_get m ''id'' of
        Inl e \<Rightarrow> Inl e
      | Inr i \<Rightarrow>
          if \<not> py_truthy i then Inr False
          else (case py_get m ''title'' of
                  Inl e \<Rightarrow> Inl e
                | Inr t \<Rightarrow>
                    if \<not> py_truthy t then Inr False
                    else (case py_get m ''poster_path'' of
                            Inl e \<Rightarrow> Inl e
                          | Inr p \<Rightarrow> Inr (py_truthy p))))"

fun keep_complete :: "json list \<Rightarrow> py_exception + json list" where
  "keep_complete [] = Inr []"
| "keep_complete (m # ms) =
     (case complete m of
        Inl e \<Rightarrow> Inl e
      | Inr b \<Rightarrow>
          (case keep_complete ms of
             Inl e \<Rightarrow> Inl e
           | Inr r \<Rightarrow> Inr (if b then m # r else r)))"

text \<open>
  \<^verbatim>\<open>if data and "results" in data: movies = [m for m in data["results"] if ...]\<close>.
  The result is the list \<^verbatim>\<open>movies\<close>, empty when the guard is false.
\<close>

definition usable_movies :: "json \<Rightarrow> py_exception + json list" where
  "usable_movies data =
     (if \<not> py_truthy data then Inr []
      else (case py_in ''results'' data of
              Inl e \<Rightarrow> Inl e
            | Inr False \<Rightarrow> Inr []
            | Inr True \<Rightarrow>
                (case py_subscript data ''results'' of
                   Inl e \<Rightarrow> Inl e
                 | Inr rs \<Rightarrow>
                     (case py_iter rs of
                        Inl e \<Rightarrow> Inl e
                      | Inr ms \<Rightarrow> keep_complete ms))))"

definition recent_cache_file :: string where
  "recent_cache_file = ''cache/recent.json''"

text \<open>
  \<^verbatim>\<open>get_recent_movies\<close>. The arguments are the outcomes of the two requests (the
  second one is only made when the first gave no usable movie) and of the one write.
\<close>

definition get_recent_movies ::
  "http_outcome \<Rightarrow> http_outcome \<Rightarrow> write_outcome \<Rightarrow> cache \<Rightarrow> (py_exception + json) \<times> cache" where
  "get_recent_movies discover trending w c =
     (let cache_file = recent_cache_file;
          data = tmdb_get discover
      in case usable_movies data of
           Inl e \<Rightarrow> (Inl e, c)
         | Inr movies \<Rightarrow>
             if movies \<noteq> [] then
               (case cache_write w cache_file (JArr movies) c of
                  (Inl e, c') \<Rightarrow> (Inl e, c')
                | (Inr u, c') \<Rightarrow> (Inr (JArr movies), c'))
             else
               (let trend = tmdb_get trending
                in case usable_movies trend of
                     Inl e \<Rightarrow> (Inl e, c)
                   | Inr movies \<Rightarrow>
                       if movies \<noteq> [] then
                         (case cache_write w cache_file (JArr movies) c of
                            (Inl e, c') \<Rightarrow> (Inl e, c')
                          | (Inr u, c') \<Rightarrow> (Inr (JArr movies), c'))
                       else
                         (let cached = cache_read cache_file c
                          in (Inr (if py_truthy cached then cached else JArr []), c))))"

text \<open>\<^verbatim>\<open>str(n)\<close> for the file name \<^verbatim>\<open>f"movie_{movie_id}.json"\<close>.\<close>

definition digit_char :: "nat \<Rightarrow> char" where
  "digit_char d = char_of (48 + d)"

function str_nat :: "nat \<Rightarrow> string" where
  "str_nat n = (if n < 10 then [digit_char n] else str_nat (n div 10) @ [digit_char (n mod 10)])"
  by pat_completeness auto
termination
  by (relation "measure (\<lambda>n. n)") auto

declare str_nat.simps [simp del]

definition str_int :: "int \<Rightarrow> string" where
  "str_int i = (if i < 0 then CHR ''-'' # str_nat (nat (- i)) else str_nat (nat i))"

definition movie_cache_file :: "int \<Rightarrow> string" where
  "movie_cache_file movie_id = ''cache/movie_'' @ str_int movie_id @ ''.json''"

text \<open>\<^verbatim>\<open>get_movie_details\<close>.\<close>

definition get_movie_details ::
  "http_outcome \<Rightarrow> write_outcome \<Rightarrow> int \<Rightarrow> cache \<Rightarrow> (py_exception + json) \<times> cache" where
  "get_movie_details detail w movie_id c =
     (let cache_file = movie_cache_file movie_id;
          data = tmdb_get detail
      in if py_truthy data then
           (case py_get data ''id'' of
              Inl e \<Rightarrow> (Inl e, c)
            | Inr i \<Rightarrow>
                if py_eq_int i movie_id then
                  (case cache_write w cache_file data c of
                     (Inl e, c') \<Rightarrow> (Inl e, c')
                   | (Inr u, c') \<Rightarrow> (Inr data, c'))
                else (Inr (cache_read cache_file c), c))
         else (Inr (cache_read cache_file c), c))"

section \<open>Strings from users\<close>

text \<open>
  A Python string is a sequence of code points. The strings that come in through a form
  or sit in the two tables are lists of code points, since \<^verbatim>\<open>int\<close> reads decimal digits
  and white space of every script. A literal of the source is written as a character
  list and \<open>uni\<close> gives its code points.
\<close>

type_synonym pystr = "nat list"

definition uni :: "string \<Rightarrow> pystr" where
  "uni s = map of_char s"

section \<open>Identity store\<close>

text \<open>
  The two tables of \<^verbatim>\<open>models.py\<close>. The relational store is a list of rows in
  insertion order; \<^verbatim>\<open>created_at\<close> is a clock reading.
\<close>

record user =
  u_id :: int
  u_name :: pystr
  u_email :: pystr
  u_password :: pystr

record booking =
  b_id :: int
  b_user_id :: int
  b_movie_id :: int
  b_movie_title :: pystr
  b_name :: pystr
  b_email :: pystr
  b_seats :: int
  b_showtime :: pystr
  b_date :: pystr
  b_created_at :: nat

record state =
  bookings :: "booking list"
  cache :: cache

text \<open>
  An integer goes into a statement of the store only when it fits the store's signed
  64-bit integers; binding any other raises \<^verbatim>\<open>OverflowError\<close>, in a query as in an
  insertion. The declared lengths of the string columns are not enforced by the store.
\<close>

definition sqlite_int :: "int \<Rightarrow> bool" where
  "sqlite_int i \<longleftrightarrow> - 9223372036854775808 \<le> i \<and> i \<le> 9223372036854775807"

text \<open>The primary key of a new row: one more than the largest key in the table. (The
  store departs from this only once the largest key is the last 64-bit integer.)\<close>

definition next_id :: "booking list \<Rightarrow> int" where
  "next_id bs = foldr (\<lambda>b m. max (b_id b) m) bs 0 + 1"

text \<open>\<^verbatim>\<open>db.session.add(booking); db.session.commit()\<close>.\<close>

definition add_commit :: "booking \<Rightarrow> booking list \<Rightarrow> py_exception + booking list" where
  "add_commit b bs =
     (if sqlite_int (b_user_id b) \<and> sqlite_int (b_movie_id b) \<and> sqlite_int (b_seats b)
      then Inr (bs @ [b\<lparr>b_id := next_id bs\<rparr>])
      else Inl OverflowError)"

text \<open>\<^verbatim>\<open>db.session.delete(booking); db.session.commit()\<close>: the row goes by its key.\<close>

definition delete_commit :: "booking \<Rightarrow> booking list \<Rightarrow> booking list" where
  "delete_commit b bs = filter (\<lambda>r. b_id r \<noteq> b_id b) bs"

text \<open>\<^verbatim>\<open>Booking.query.filter_by(movie_id=..., user_id=..., showtime=..., date=...).first()\<close>.\<close>

definition first_booking ::
  "int \<Rightarrow> int \<Rightarrow> pystr \<Rightarrow> pystr \<Rightarrow> booking list \<Rightarrow> py_exception + booking option" where
  "first_booking movie_id user_id showtime date bs =
     (if sqlite_int movie_id \<and> sqlite_int user_id
      then Inr (find (\<lambda>b. b_movie_id b = movie_id \<and> b_user_id b = user_id \<and>
                          b_showtime b = showtime \<and> b_date b = date) bs)
      else Inl OverflowError)"

text \<open>\<^verbatim>\<open>Booking.query.filter_by(id=..., email=...).first()\<close>.\<close>

definition first_owned :: "int \<Rightarrow> pystr \<Rightarrow> booking list \<Rightarrow> py_exception + booking option" where
  "first_owned booking_id email bs =
     (if sqlite_int booking_id
      then Inr (find (\<lambda>b. b_id b = booking_id \<and> b_email b = email) bs)
      else Inl OverflowError)"

section \<open>Python's int() on a string\<close>

text \<open>
  \<^verbatim>\<open>int(s)\<close> first turns every code point from 127 on into ASCII: white space into a
  blank, a decimal digit of any script into the ASCII digit of its value, anything else
  into a question mark. Then it skips ASCII white space at both ends, reads an optional
  sign and then decimal digits, with single underscores allowed between digits. Anything
  else is a \<^verbatim>\<open>ValueError\<close>, here \<open>None\<close>, and so are more than 4300 digits. The tables
  are those of Unicode 14.0, which CPython 3.11 carries: the decimal digits come in runs
  of ten, listed by their zeros.
\<close>

definition decimal_zeros :: "nat list" where
  "decimal_zeros =
     [48, 1632, 1776, 1984, 2406, 2534, 2662, 2790, 2918, 3046, 3174, 3302, 3430, 3558,
      3664, 3792, 3872, 4160, 4240, 6112, 6160, 6470, 6608, 6784, 6800, 6992, 7088, 7232,
      7248, 42528, 43216, 43264, 43472, 43504, 43600, 44016, 65296, 66720, 68912, 69734,
      69872, 69942, 70096, 70384, 70736, 70864, 71248, 71360, 71472, 71904, 72016, 72784,
      73040, 73120, 92768, 92864, 93008, 120782, 120792, 120802, 120812, 120822, 123200,
      123632, 125264, 130032]"

definition decimal_value :: "nat \<Rightarrow> nat option" where
  "decimal_value c =
     (case find (\<lambda>z. z \<le> c \<and> c < z + 10) decimal_zeros of
        None \<Rightarrow> None
      | Some z \<Rightarrow> Some (c - z))"

definition unicode_space :: "nat \<Rightarrow> bool" where
  "unicode_space c \<longleftrightarrow>
     c = 133 \<or> c = 160 \<or> c = 5760 \<or> (8192 \<le> c \<and> c \<le> 8202) \<or> c = 8232 \<or> c = 8233 \<or>
     c = 8239 \<or> c = 8287 \<or> c = 12288"

definition to_ascii :: "nat \<Rightarrow> nat" where
  "to_ascii c =
     (if c < 127 then c
      else if unicode_space c then 32
      else (case decimal_value c of None \<Rightarrow> 63 | Some d \<Rightarrow> 48 + d))"

definition is_space :: "nat \<Rightarrow> bool" where
  "is_space c \<longleftrightarrow> (9 \<le> c \<and> c \<le> 13) \<or> c = 32"

definition strip :: "pystr \<Rightarrow> pystr" where
  "strip s = rev (dropWhile is_space (rev (dropWhile is_space s)))"

definition digit_of :: "nat \<Rightarrow> nat option" where
  "digit_of c = (if 48 \<le> c \<and> c \<le> 57 then Some (c - 48) else None)"

fun more_digits :: "nat \<Rightarrow> pystr \<Rightarrow> nat option" where
  "more_digits acc [] = Some acc"
| "more_digits acc [c] =
     (case digit_of c of None \<Rightarrow> None | Some v \<Rightarrow> Some (10 * acc + v))"
| "more_digits acc (c # d # ds) =
     (if c = 95 then
        (case digit_of d of None \<Rightarrow> None | Some v \<Rightarrow> more_digits (10 * acc + v) ds)
      else
        (case digit_of c of None \<Rightarrow> None | Some v \<Rightarrow> more_digits (10 * acc + v) (d # ds)))"

definition max_str_digits :: nat where
  "max_str_digits = 4300"

definition digits :: "pystr \<Rightarrow> nat option" where
  "digits s =
     (case s of
        [] \<Rightarrow> None
      | c # cs \<Rightarrow>
          (case digit_of c of
             None \<Rightarrow> None
           | Some v \<Rightarrow>
               (case more_digits v cs of
                  None \<Rightarrow> None
                | Some n \<Rightarrow>
                    if length (filter (\<lambda>x. x \<noteq> 95) s) > max_str_digits then None
                    else Some n)))"

definition py_int :: "pystr \<Rightarrow> int option" where
  "py_int s =
     (case strip (map to_ascii s) of
        [] \<Rightarrow> None
      | c # cs \<Rightarrow>
          if c = 45 then map_option (\<lambda>n. - int n) (digits cs)
          else if c = 43 then map_option int (digits cs)
          else map_option int (digits (c # cs)))"

section \<open>Booking workflow\<close>

datatype http_method = GET | POST

text \<open>The texts shown to the user, by name.\<close>

datatype message =
    CompleteAllFields
  | AlreadyBooked
  | BookingSuccessful
  | DetailsUnavailable
  | BookingCancelled

text \<open>
  What a view returns: \<^verbatim>\<open>movie.html\<close> with its template arguments (\<^verbatim>\<open>movie\<close>,
  \<^verbatim>\<open>booking_success\<close>, \<^verbatim>\<open>available_dates\<close> as day numbers, \<^verbatim>\<open>message\<close>,
  \<^verbatim>\<open>message_type\<close>), \<^verbatim>\<open>booking_cancelled.html\<close>, or a redirect to a named view.
\<close>

datatype response =
    MovieHtml json bool "int list" "message option" "string option"
  | BookingCancelledHtml message string
  | Redirect string

record request =
  rq_method :: http_method
  rq_form :: "string \<rightharpoonup> pystr"
  rq_user :: "user option"

text \<open>What the world outside decides during one request: the clock, the calendar, the
  outcome of the detail request and of the cache write.\<close>

record world =
  w_now :: nat
  w_today :: int
  w_detail :: http_outcome
  w_write :: write_outcome

text \<open>Truth value of \<^verbatim>\<open>request.form.get(k)\<close>: absent and empty are false.\<close>

fun filled :: "pystr option \<Rightarrow> bool" where
  "filled None = False"
| "filled (Some v) = (v \<noteq> [])"

text \<open>\<^verbatim>\<open>request.form.get(k) or d\<close>.\<close>

fun or_default :: "pystr option \<Rightarrow> pystr \<Rightarrow> pystr" where
  "or_default None d = d"
| "or_default (Some v) d = (if v \<noteq> [] then v else d)"

text \<open>
  The \<^verbatim>\<open>POST\<close> block of \<^verbatim>\<open>movie_page\<close>. It returns the three local variables
  \<^verbatim>\<open>booking_success\<close>, \<^verbatim>\<open>message\<close>, \<^verbatim>\<open>message_type\<close> and the table. Past the first
  test the three fields are present, so \<open>the\<close> reads their strings. An exception leaves
  the table as it was.
\<close>

definition movie_page_post ::
  "user \<Rightarrow> int \<Rightarrow> (string \<rightharpoonup> pystr) \<Rightarrow> nat \<Rightarrow> booking list \<Rightarrow>
     (py_exception + bool \<times> message option \<times> string option) \<times> booking list" where
  "movie_page_post cu movie_id form now bs =
     (let movie_title = or_default (form ''movie_title'') (uni ''Unknown'');
          seats = form ''seats'';
          showtime = form ''showtime'';
          date_selected = form ''date''
      in if \<not> (filled seats \<and> filled showtime \<and> filled date_selected) then
           (Inr (False, Some CompleteAllFields, Some ''warning''), bs)
         else
           (case first_booking movie_id (u_id cu) (the showtime) (the date_selected) bs of
              Inl e \<Rightarrow> (Inl e, bs)
            | Inr existing \<Rightarrow>
                if existing \<noteq> None then
                  (Inr (False, Some AlreadyBooked, Some ''error''), bs)
                else
                  (case py_int (the seats) of
                     None \<Rightarrow> (Inl ValueError, bs)
                   | Some n \<Rightarrow>
                       (let booking = \<lparr>b_id = 0, b_user_id = u_id cu, b_movie_id = movie_id,
                                       b_movie_title = movie_title, b_name = u_name cu,
                                       b_email = u_email cu, b_seats = n,
                                       b_showtime = the showtime,
                                       b_date = the date_selected,
                                       b_created_at = now\<rparr>
                        in case add_commit booking bs of
                             Inl e \<Rightarrow> (Inl e, bs)
                           | Inr bs' \<Rightarrow>
                               (Inr (True, Some BookingSuccessful, Some ''success''), bs')))))"

text \<open>\<^verbatim>\<open>movie_page\<close> with its \<^verbatim>\<open>login_required\<close> decorator.\<close>

definition movie_page ::
  "request \<Rightarrow> world \<Rightarrow> int \<Rightarrow> state \<Rightarrow> (py_exception + response) \<times> state" where
  "movie_page rq w movie_id s =
     (case rq_user rq of
        None \<Rightarrow> (Inr (Redirect ''login''), s)
      | Some cu \<Rightarrow>
          (case (if rq_method rq = POST
                 then movie_page_post cu movie_id (rq_form rq) (w_now w) (bookings s)
                 else (Inr (False, None, None), bookings s)) of
             (Inl e, bs') \<Rightarrow> (Inl e, s\<lparr>bookings := bs'\<rparr>)
           | (Inr (booking_success, message, message_type), bs') \<Rightarrow>
               (case get_movie_details (w_detail w) (w_write w) movie_id (cache s) of
                  (Inl e, c') \<Rightarrow> (Inl e, \<lparr>bookings = bs', cache = c'\<rparr>)
                | (Inr movie, c') \<Rightarrow>
                    (if \<not> py_truthy movie then
                       (Inr (MovieHtml JNull False [] (Some DetailsUnavailable) (Some ''error'')),
                        \<lparr>bookings = bs', cache = c'\<rparr>)
                     else
                       (Inr (MovieHtml movie booking_success
                               (map (\<lambda>i. w_today w + int i) [0..<7]) message message_type),
                        \<lparr>bookings = bs', cache = c'\<rparr>)))))"

text \<open>\<^verbatim>\<open>cancel_booking\<close> with its \<^verbatim>\<open>login_required\<close> decorator.\<close>

definition cancel_booking ::
  "user option \<Rightarrow> int \<Rightarrow> state \<Rightarrow> (py_exception + response) \<times> state" where
  "cancel_booking current_user booking_id s =
     (case current_user of
        None \<Rightarrow> (Inr (Redirect ''login''), s)
      | Some cu \<Rightarrow>
          (case first_owned booking_id (u_email cu) (bookings s) of
             Inl e \<Rightarrow> (Inl e, s)
           | Inr (Some booking) \<Rightarrow>
               (Inr (BookingCancelledHtml BookingCancelled ''error''),
                s\<lparr>bookings := delete_commit booking (bookings s)\<rparr>)
           | Inr None \<Rightarrow> (Inr (Redirect ''dashboard''), s)))"

section \<open>Reachable states\<close>

text \<open>
  The application starts with an empty table and an empty cache directory. The table is
  changed by \<^verbatim>\<open>movie_page\<close> and \<^verbatim>\<open>cancel_booking\<close>; the cache directory by
  \<^verbatim>\<open>movie_page\<close> and by the other views' calls of \<^verbatim>\<open>get_recent_movies\<close> and
  \<^verbatim>\<open>get_movie_details\<close>. Requests are handled one after the other.
\<close>

inductive reachable :: "state \<Rightarrow> bool" where
  start: "reachable \<lparr>bookings = [], cache = Map.empty\<rparr>"
| page: "reachable s \<Longrightarrow> reachable (snd (movie_page rq w movie_id s))"
| cancel: "reachable s \<Longrightarrow> reachable (snd (cancel_booking current_user booking_id s))"
| recent:
    "reachable s \<Longrightarrow> reachable (s\<lparr>cache := snd (get_recent_movies discover trending wo (cache s))\<rparr>)"
| details:
    "reachable s \<Longrightarrow> reachable (s\<lparr>cache := snd (get_movie_details detail wo movie_id (cache s))\<rparr>)"

section \<open>Invariants\<close>

text \<open>
  What the snapshot files hold when only this program writes them: the file of the recent
  list holds a non-empty list of complete records, the file of movie \<open>k\<close> holds a record
  whose identifier is \<open>k\<close>.
\<close>

definition cache_ok :: "cache \<Rightarrow> bool" where
  "cache_ok c \<longleftrightarrow>
     (\<forall>v. c recent_cache_file = Some (Valid v) \<longrightarrow>
        (\<exists>ms. v = JArr ms \<and> ms \<noteq> [] \<and> (\<forall>m \<in> set ms. complete m = Inr True))) \<and>
     (\<forall>k v. c (movie_cache_file k) = Some (Valid v) \<longrightarrow>
        py_truthy v \<and> (\<exists>i. py_get v ''id'' = Inr i \<and> py_eq_int i k))"

text \<open>The tuple that the duplicate check of \<^verbatim>\<open>movie_page\<close> compares.\<close>

definition booking_key :: "booking \<Rightarrow> int \<times> int \<times> pystr \<times> pystr" where
  "booking_key b = (b_user_id b, b_movie_id b, b_showtime b, b_date b)"

text \<open>
  A complete record, as the specification words it: a dictionary that has an identifier,
  a title and a poster path, none of them empty (\<^verbatim>\<open>None\<close>, \<^verbatim>\<open>False\<close>, zero or of
  length zero).
\<close>

fun present :: "json \<Rightarrow> string \<Rightarrow> bool" where
  "present (JObj kvs) k = (case map_of kvs k of None \<Rightarrow> False | Some v \<Rightarrow> py_truthy v)"
| "present _ k = False"

definition complete_record :: "json \<Rightarrow> bool" where
  "complete_record m \<longleftrightarrow> present m ''id'' \<and> present m ''title'' \<and> present m ''poster_path''"

text \<open>
  What the list endpoints of the metadata service answer when they keep to their
  interface: a JSON object whose \<^verbatim>\<open>results\<close>, when there, is a list of objects. A
  failed request counts as well.
\<close>

fun is_object :: "json \<Rightarrow> bool" where
  "is_object (JObj kvs) = True"
| "is_object _ = False"

fun list_answer :: "http_outcome \<Rightarrow> bool" where
  "list_answer RequestFailed = True"
| "list_answer (Body (JObj kvs)) =
     (case map_of kvs ''results'' of
        None \<Rightarrow> True
      | Some (JArr ms) \<Rightarrow> list_all is_object ms
      | Some _ \<Rightarrow> False)"
| "list_answer (Body _) = False"

section \<open>Sample inputs\<close>

text \<open>Two users, a movie record, a booking form and two worlds: one where the detail
  request is answered, one where it fails.\<close>

definition alice :: user where
  "alice = \<lparr>u_id = 1, u_name = uni ''Alice'', u_email = uni ''alice@example.com'',
             u_password = uni ''pbkdf2''\<rparr>"

definition bob :: user where
  "bob = \<lparr>u_id = 2, u_name = uni ''Bob'', u_email = uni ''bob@example.com'',
           u_password = uni ''scrypt''\<rparr>"

definition matrix :: json where
  "matrix = JObj [(''id'', JInt 603), (''title'', JStr ''The Matrix''),
                  (''poster_path'', JStr ''/m.jpg'')]"

definition evening :: "string \<Rightarrow> string \<rightharpoonup> pystr" where
  "evening seats = [''seats'' \<mapsto> uni seats, ''showtime'' \<mapsto> uni ''18:00'',
                    ''date'' \<mapsto> uni ''2025-01-01'']"

definition post :: "user \<Rightarrow> (string \<rightharpoonup> pystr) \<Rightarrow> request" where
  "post cu form = \<lparr>rq_method = POST, rq_form = form, rq_user = Some cu\<rparr>"

definition online :: world where
  "online = \<lparr>w_now = 1000, w_today = 20000, w_detail = Body matrix, w_write = Written\<rparr>"

definition offline :: world where
  "offline = \<lparr>w_now = 2000, w_today = 20000, w_detail = RequestFailed, w_write = Written\<rparr>"

definition initial :: state where
  "initial = \<lparr>bookings = [], cache = Map.empty\<rparr>"

text \<open>The rows that Alice's booking of two seats and Bob's of three leave in the table,
  and the states after Alice booked the evening show and after Bob booked it too.\<close>

definition alice_row :: booking where
  "alice_row = \<lparr>b_id = 1, b_user_id = 1, b_movie_id = 603, b_movie_title = uni ''Unknown'',
                 b_name = uni ''Alice'', b_email = uni ''alice@example.com'', b_seats = 2,
                 b_showtime = uni ''18:00'', b_date = uni ''2025-01-01'', b_created_at = 1000\<rparr>"

definition bob_row :: booking where
  "bob_row = \<lparr>b_id = 2, b_user_id = 2, b_movie_id = 603, b_movie_title = uni ''Unknown'',
               b_name = uni ''Bob'', b_email = uni ''bob@example.com'', b_seats = 3,
               b_showtime = uni ''18:00'', b_date = uni ''2025-01-01'', b_created_at = 2000\<rparr>"

definition booked_once :: state where
  "booked_once = snd (movie_page (post alice (evening ''2'')) online 603 initial)"

definition booked_twice :: state where
  "booked_twice = snd (movie_page (post bob (evening ''3'')) offline 603 booked_once)"

text \<open>An answer of a list endpoint with one complete and one incomplete record, one with
  no complete record, and the state after the first was fetched and stored.\<close>

definition listing :: json where
  "listing = JObj [(''results'', JArr [matrix, JObj [(''id'', JInt 604), (''title'', JStr [])]])]"

definition poor :: json where
  "poor = JObj [(''results'', JArr [JObj [(''id'', JInt 7)]])]"

definition listed :: state where
  "listed = initial\<lparr>cache := snd (get_recent_movies (Body listing) RequestFailed Written (cache initial))\<rparr>"

section \<open>Cache file names\<close>

lemma str_nat_nonempty: "str_nat n \<noteq> []"
  by (subst str_nat.simps) simp

lemma of_char_digit_char: "d < 10 \<Longrightarrow> (of_char (digit_char d) :: nat) = 48 + d"
  by (simp add: digit_char_def)

lemma digit_char_inj:
  assumes "a < 10" "b < 10" "digit_char a = digit_char b"
  shows "a = b"
proof -
  have "(of_char (digit_char a) :: nat) = of_char (digit_char b)"
    by (simp only: assms(3))
  then have "48 + a = 48 + b"
    by (simp only: of_char_digit_char [OF assms(1)] of_char_digit_char [OF assms(2)])
  then show ?thesis by simp
qed

lemma digit_char_not_minus: "d < 10 \<Longrightarrow> digit_char d \<noteq> CHR ''-''"
proof
  assume d: "d < 10" and e: "digit_char d = CHR ''-''"
  have "(of_char (digit_char d) :: nat) = 45" by (simp add: e)
  with of_char_digit_char [OF d] show False by simp
qed

lemma str_nat_no_minus: "c \<in> set (str_nat n) \<Longrightarrow> c \<noteq> CHR ''-''"
proof (induction n rule: str_nat.induct)
  case (1 n)
  show ?case
  proof (cases "n < 10")
    case True
    with "1.prems" have "c = digit_char n" by (subst (asm) str_nat.simps) simp
    with True show ?thesis by (simp add: digit_char_not_minus)
  next
    case False
    with "1.prems" have "c \<in> set (str_nat (n div 10)) \<or> c = digit_char (n mod 10)"
      by (subst (asm) str_nat.simps) auto
    then show ?thesis
    proof
      assume "c \<in> set (str_nat (n div 10))"
      with "1.IH" False show ?thesis by simp
    next
      assume "c = digit_char (n mod 10)"
      then show ?thesis by (simp add: digit_char_not_minus)
    qed
  qed
qed

lemma str_nat_inj: "str_nat n = str_nat m \<Longrightarrow> n = m"
proof (induction n arbitrary: m rule: str_nat.induct)
  case (1 n)
  show ?case
  proof (cases "n < 10")
    case n: True
    show ?thesis
    proof (cases "m < 10")
      case True
      with n "1.prems" have "digit_char n = digit_char m"
        by (simp add: str_nat.simps [of n] str_nat.simps [of m])
      with n True show ?thesis by (rule digit_char_inj)
    next
      case False
      with n "1.prems" have "[digit_char n] = str_nat (m div 10) @ [digit_char (m mod 10)]"
        by (simp add: str_nat.simps [of n] str_nat.simps [of m])
      then have "str_nat (m div 10) = []" by simp
      then show ?thesis by (simp add: str_nat_nonempty)
    qed
  next
    case n: False
    show ?thesis
    proof (cases "m < 10")
      case True
      with n "1.prems" have "str_nat (n div 10) @ [digit_char (n mod 10)] = [digit_char m]"
        by (simp add: str_nat.simps [of n] str_nat.simps [of m])
      then have "str_nat (n div 10) = []" by simp
      then show ?thesis by (simp add: str_nat_nonempty)
    next
      case False
      with n "1.prems" have
        "str_nat (n div 10) @ [digit_char (n mod 10)] = str_nat (m div 10) @ [digit_char (m mod 10)]"
        by (simp add: str_nat.simps [of n] str_nat.simps [of m])
      then have a: "str_nat (n div 10) = str_nat (m div 10)"
        and b: "digit_char (n mod 10) = digit_char (m mod 10)" by simp_all
      from "1.IH" [OF n a] have d: "n div 10 = m div 10" .
      from b have e: "n mod 10 = m mod 10" by (intro digit_char_inj) simp_all
      have "n = 10 * (n div 10) + n mod 10" by simp
      also have "\<dots> = 10 * (m div 10) + m mod 10" by (simp only: d e)
      also have "\<dots> = m" by simp
      finally show ?thesis .
    qed
  qed
qed

lemma str_int_inj: "str_int i = str_int j \<Longrightarrow> i = j"
proof -
  assume eq: "str_int i = str_int j"
  have hd_nat: "\<And>n. hd (str_nat n) \<noteq> CHR ''-''"
    using str_nat_no_minus str_nat_nonempty by (metis hd_in_set)
  show ?thesis
  proof (cases "i < 0")
    case i: True
    show ?thesis
    proof (cases "j < 0")
      case True
      with i eq have "str_nat (nat (- i)) = str_nat (nat (- j))" by (simp add: str_int_def)
      then have "nat (- i) = nat (- j)" by (rule str_nat_inj)
      with i True show ?thesis by simp
    next
      case False
      with i eq have "CHR ''-'' # str_nat (nat (- i)) = str_nat (nat j)" by (simp add: str_int_def)
      then have "hd (str_nat (nat j)) = CHR ''-''" by (metis list.sel(1))
      with hd_nat show ?thesis by blast
    qed
  next
    case i: False
    show ?thesis
    proof (cases "j < 0")
      case True
      with i eq have "str_nat (nat i) = CHR ''-'' # str_nat (nat (- j))" by (simp add: str_int_def)
      then have "hd (str_nat (nat i)) = CHR ''-''" by (metis list.sel(1))
      with hd_nat show ?thesis by blast
    next
      case False
      with i eq have "str_nat (nat i) = str_nat (nat j)" by (simp add: str_int_def)
      then have "nat i = nat j" by (rule str_nat_inj)
      with i False show ?thesis by simp
    qed
  qed
qed

lemma movie_cache_file_inj: "movie_cache_file i = movie_cache_file j \<Longrightarrow> i = j"
  by (rule str_int_inj) (simp add: movie_cache_file_def)

lemma movie_cache_file_not_recent: "movie_cache_file i \<noteq> recent_cache_file"
  by (simp add: movie_cache_file_def recent_cache_file_def)


section \<open>The catalog keeps the cache well-formed\<close>

lemma keep_complete_all: "keep_complete ms = Inr r \<Longrightarrow> m \<in> set r \<Longrightarrow> complete m = Inr True"
proof (induction ms arbitrary: r)
  case Nil
  then show ?case by simp
next
  case (Cons a ms)
  then show ?case
    by (auto split: sum.splits if_splits)
qed

lemma usable_movies_all: "usable_movies data = Inr r \<Longrightarrow> m \<in> set r \<Longrightarrow> complete m = Inr True"
  by (auto simp: usable_movies_def keep_complete_all split: if_splits sum.splits bool.splits)

lemma complete_iff: "complete m = Inr True \<longleftrightarrow> complete_record m"
  by (cases m) (auto simp: complete_def complete_record_def split: option.splits)

lemma usable_movies_records:
  "usable_movies data = Inr r \<Longrightarrow> m \<in> set r \<Longrightarrow> complete_record m"
  using usable_movies_all [of data r m] by (simp add: complete_iff)

lemma complete_object: "is_object m \<Longrightarrow> \<exists>b. complete m = Inr b"
  by (cases m) (auto simp: complete_def)

lemma keep_complete_objects: "list_all is_object ms \<Longrightarrow> \<exists>r. keep_complete ms = Inr r"
proof (induction ms)
  case Nil
  show ?case by simp
next
  case (Cons m ms)
  then obtain b r where "complete m = Inr b" "keep_complete ms = Inr r"
    using complete_object [of m] by auto
  then show ?case by simp
qed

lemma usable_movies_list_answer: "list_answer a \<Longrightarrow> \<exists>r. usable_movies (tmdb_get a) = Inr r"
proof (cases a)
  case RequestFailed
  then show ?thesis by (simp add: usable_movies_def)
next
  case (Body j)
  assume la: "list_answer a"
  with Body obtain kvs where j: "j = JObj kvs" by (cases j) auto
  show ?thesis
  proof (cases "map_of kvs ''results''")
    case None
    with Body j show ?thesis by (simp add: usable_movies_def)
  next
    case (Some rs)
    with la Body j obtain ms where rs: "rs = JArr ms" and obj: "list_all is_object ms"
      by (cases rs) auto
    from keep_complete_objects [OF obj] obtain r where "keep_complete ms = Inr r" ..
    with Body j Some rs show ?thesis by (simp add: usable_movies_def)
  qed
qed

lemma cache_ok_unreadable: "cache_ok c \<Longrightarrow> cache_ok (c(file \<mapsto> Unreadable))"
  by (simp add: cache_ok_def)

lemma cache_ok_recent:
  assumes "cache_ok c" "ms \<noteq> []" "\<And>m. m \<in> set ms \<Longrightarrow> complete m = Inr True"
  shows "cache_ok (c(recent_cache_file \<mapsto> Valid (JArr ms)))"
  using assms by (simp add: cache_ok_def movie_cache_file_not_recent)

lemma cache_ok_movie:
  assumes "cache_ok c" "py_truthy v" "py_get v ''id'' = Inr i" "py_eq_int i k"
  shows "cache_ok (c(movie_cache_file k \<mapsto> Valid v))"
  using assms movie_cache_file_not_recent [of k]
  by (auto simp: cache_ok_def dest: movie_cache_file_inj)

lemma cache_write_cache_ok_recent:
  assumes "cache_ok c" "ms \<noteq> []" "\<And>m. m \<in> set ms \<Longrightarrow> complete m = Inr True"
  shows "cache_ok (snd (cache_write w recent_cache_file (JArr ms) c))"
  using assms by (cases w) (simp_all add: cache_write_def cache_ok_recent cache_ok_unreadable)

lemma cache_write_cache_ok_movie:
  assumes "cache_ok c" "py_truthy v" "py_get v ''id'' = Inr i" "py_eq_int i k"
  shows "cache_ok (snd (cache_write w (movie_cache_file k) v c))"
  using assms by (cases w) (simp_all add: cache_write_def cache_ok_movie cache_ok_unreadable)

lemma cache_write_fst: "fst (cache_write w file data c) = Inr ()"
  by (cases w) (simp_all add: cache_write_def)

lemma cache_write_not_Inl: "cache_write w file data c \<noteq> (Inl e, c')"
  by (cases w) (simp_all add: cache_write_def)

lemma snd_case_keep:
  "snd (case p of (Inl e, c') \<Rightarrow> (f e, c') | (Inr u, c') \<Rightarrow> (g u, c')) = snd p"
  by (cases p) (auto split: sum.splits)

lemma get_recent_movies_cache_ok:
  assumes "cache_ok c"
  shows "cache_ok (snd (get_recent_movies discover trending w c))"
proof (cases "usable_movies (tmdb_get discover)")
  case (Inl e)
  with assms show ?thesis by (simp add: get_recent_movies_def)
next
  case first: (Inr ms)
  show ?thesis
  proof (cases "ms = []")
    case False
    have "cache_ok (snd (cache_write w recent_cache_file (JArr ms) c))"
      using assms False usable_movies_all [OF first] by (rule cache_write_cache_ok_recent)
    with first False show ?thesis
      by (simp add: get_recent_movies_def snd_case_keep)
  next
    case True
    show ?thesis
    proof (cases "usable_movies (tmdb_get trending)")
      case (Inl e)
      with assms first True show ?thesis by (simp add: get_recent_movies_def)
    next
      case second: (Inr ns)
      show ?thesis
      proof (cases "ns = []")
        case False
        have "cache_ok (snd (cache_write w recent_cache_file (JArr ns) c))"
          using assms False usable_movies_all [OF second] by (rule cache_write_cache_ok_recent)
        with first True second False show ?thesis
          by (simp add: get_recent_movies_def snd_case_keep)
      next
        case ns: True
        with assms first True second show ?thesis by (simp add: get_recent_movies_def Let_def)
      qed
    qed
  qed
qed

lemma get_movie_details_cache_ok:
  assumes "cache_ok c"
  shows "cache_ok (snd (get_movie_details detail w k c))"
proof (cases "py_truthy (tmdb_get detail)")
  case False
  with assms show ?thesis by (simp add: get_movie_details_def)
next
  case True
  show ?thesis
  proof (cases "py_get (tmdb_get detail) ''id''")
    case (Inl e)
    with assms True show ?thesis by (simp add: get_movie_details_def)
  next
    case (Inr i)
    show ?thesis
    proof (cases "py_eq_int i k")
      case False
      with assms True Inr show ?thesis by (simp add: get_movie_details_def)
    next
      case eq: True
      have "cache_ok (snd (cache_write w (movie_cache_file k) (tmdb_get detail) c))"
        using assms True Inr eq by (rule cache_write_cache_ok_movie)
      with True Inr eq show ?thesis
        by (simp add: get_movie_details_def Let_def snd_case_keep)
    qed
  qed
qed

lemma cached_recent:
  assumes "cache_ok c"
  shows "cache_read recent_cache_file c = JNull \<or>
    (\<exists>ms. cache_read recent_cache_file c = JArr ms \<and> ms \<noteq> [] \<and>
       (\<forall>m \<in> set ms. complete_record m))"
proof (cases "c recent_cache_file")
  case None
  then show ?thesis by (simp add: cache_read_def)
next
  case (Some fc)
  show ?thesis
  proof (cases fc)
    case Unreadable
    with Some show ?thesis by (simp add: cache_read_def)
  next
    case (Valid v)
    with Some assms obtain ms where "v = JArr ms" "ms \<noteq> []" "\<forall>m \<in> set ms. complete m = Inr True"
      by (auto simp: cache_ok_def)
    with Some Valid show ?thesis by (simp add: cache_read_def complete_iff)
  qed
qed

lemma get_recent_movies_raises:
  "fst (get_recent_movies discover trending w c) = Inl e \<Longrightarrow>
     usable_movies (tmdb_get discover) = Inl e \<or> usable_movies (tmdb_get trending) = Inl e"
  by (auto simp: get_recent_movies_def Let_def cache_write_not_Inl
      split: sum.splits if_splits prod.splits)

lemma get_recent_movies_fresh:
  assumes "usable_movies (tmdb_get discover) = Inr ms" "ms \<noteq> []"
  shows "fst (get_recent_movies discover trending w c) = Inr (JArr ms)"
proof -
  obtain c' where "cache_write w recent_cache_file (JArr ms) c = (Inr (), c')"
    using cache_write_fst [of w recent_cache_file "JArr ms" c]
    by (cases "cache_write w recent_cache_file (JArr ms) c") auto
  with assms show ?thesis by (simp add: get_recent_movies_def)
qed

lemma get_recent_movies_trend:
  assumes "usable_movies (tmdb_get discover) = Inr []"
    "usable_movies (tmdb_get trending) = Inr ms" "ms \<noteq> []"
  shows "fst (get_recent_movies discover trending w c) = Inr (JArr ms)"
proof -
  obtain c' where "cache_write w recent_cache_file (JArr ms) c = (Inr (), c')"
    using cache_write_fst [of w recent_cache_file "JArr ms" c]
    by (cases "cache_write w recent_cache_file (JArr ms) c") auto
  with assms show ?thesis by (simp add: get_recent_movies_def)
qed

lemma get_recent_movies_returns:
  assumes "cache_ok c" "fst (get_recent_movies discover trending w c) = Inr v"
  shows "\<exists>ms. v = JArr ms \<and> (\<forall>m \<in> set ms. complete_record m)"
proof (cases "usable_movies (tmdb_get discover)")
  case (Inl e)
  with assms(2) show ?thesis by (simp add: get_recent_movies_def)
next
  case first: (Inr ms)
  show ?thesis
  proof (cases "ms = []")
    case False
    with first assms(2) have "v = JArr ms" by (simp add: get_recent_movies_fresh)
    with first show ?thesis by (auto dest: usable_movies_records)
  next
    case True
    show ?thesis
    proof (cases "usable_movies (tmdb_get trending)")
      case (Inl e)
      with first True assms(2) show ?thesis by (simp add: get_recent_movies_def)
    next
      case second: (Inr ns)
      show ?thesis
      proof (cases "ns = []")
        case False
        with first True second assms(2) have "v = JArr ns" by (simp add: get_recent_movies_trend)
        with second show ?thesis by (auto dest: usable_movies_records)
      next
        case ns: True
        with first True second assms(2)
        have v: "v = (if py_truthy (cache_read recent_cache_file c)
                      then cache_read recent_cache_file c else JArr [])"
          by (simp add: get_recent_movies_def Let_def)
        from cached_recent [OF assms(1)] show ?thesis
          by (auto simp: v)
      qed
    qed
  qed
qed


section \<open>Effects of the views on the state\<close>

lemma movie_page_cache:
  "cache (snd (movie_page rq w k s)) = cache s \<or>
   cache (snd (movie_page rq w k s)) = snd (get_movie_details (w_detail w) (w_write w) k (cache s))"
  by (auto simp: movie_page_def split: option.splits prod.splits sum.splits if_splits)

lemma cancel_booking_cache: "cache (snd (cancel_booking cu bid s)) = cache s"
  by (auto simp: cancel_booking_def split: option.splits sum.splits)

lemma reachable_cache_ok: "reachable s \<Longrightarrow> cache_ok (cache s)"
proof (induction rule: reachable.induct)
  case start
  show ?case by (simp add: cache_ok_def)
next
  case (page s rq w movie_id)
  with movie_page_cache [of rq w movie_id s] show ?case
    by (auto simp: get_movie_details_cache_ok)
next
  case (cancel s current_user booking_id)
  then show ?case by (simp add: cancel_booking_cache)
next
  case (recent s discover trending wo)
  then show ?case by (simp add: get_recent_movies_cache_ok)
next
  case (details s detail wo movie_id)
  then show ?case by (simp add: get_movie_details_cache_ok)
qed

lemma next_id_greater: "b \<in> set bs \<Longrightarrow> b_id b < next_id bs"
proof -
  have "b \<in> set bs \<Longrightarrow> b_id b \<le> foldr (\<lambda>b m. max (b_id b) m) bs 0" for bs
    by (induction bs) auto
  then show "b \<in> set bs \<Longrightarrow> b_id b < next_id bs"
    by (fastforce simp: next_id_def)
qed

lemma movie_page_bookings:
  "bookings (snd (movie_page rq w k s)) = bookings s \<or>
   (\<exists>cu. rq_user rq = Some cu \<and> rq_method rq = POST \<and>
      bookings (snd (movie_page rq w k s)) =
        snd (movie_page_post cu k (rq_form rq) (w_now w) (bookings s)))"
  by (auto simp: movie_page_def split: option.splits prod.splits sum.splits if_splits)

lemma first_booking_None:
  "first_booking k uid sh d bs = Inr None \<longleftrightarrow>
     sqlite_int k \<and> sqlite_int uid \<and> (\<forall>b \<in> set bs. booking_key b \<noteq> (uid, k, sh, d))"
  by (auto simp: first_booking_def find_None_iff booking_key_def)

lemma first_booking_Some:
  "first_booking k uid sh d bs = Inr (Some b) \<Longrightarrow> b \<in> set bs \<and> booking_key b = (uid, k, sh, d)"
  by (auto simp: first_booking_def find_Some_iff booking_key_def split: if_splits)


text \<open>The \<^verbatim>\<open>POST\<close> block leaves the table as it is or appends one row.\<close>

lemma movie_page_post_cases:
  obtains
    (unchanged) "snd (movie_page_post cu k form now bs) = bs"
  | (added) se sh d n where
      "form ''seats'' = Some se" "form ''showtime'' = Some sh" "form ''date'' = Some d"
      "se \<noteq> []" "sh \<noteq> []" "d \<noteq> []" "py_int se = Some n"
      "\<And>b. b \<in> set bs \<Longrightarrow> booking_key b \<noteq> (u_id cu, k, sh, d)"
      "movie_page_post cu k form now bs =
         (Inr (True, Some BookingSuccessful, Some ''success''),
          bs @ [\<lparr>b_id = next_id bs, b_user_id = u_id cu, b_movie_id = k,
                  b_movie_title = or_default (form ''movie_title'') (uni ''Unknown''),
                  b_name = u_name cu, b_email = u_email cu, b_seats = n, b_showtime = sh,
                  b_date = d, b_created_at = now\<rparr>])"
      "sqlite_int k" "sqlite_int (u_id cu)" "sqlite_int n"
proof (cases "filled (form ''seats'') \<and> filled (form ''showtime'') \<and> filled (form ''date'')")
  case False
  then have "snd (movie_page_post cu k form now bs) = bs"
    by (auto simp: movie_page_post_def)
  then show ?thesis by (rule unchanged)
next
  case True
  then obtain se sh d where f: "form ''seats'' = Some se" "form ''showtime'' = Some sh"
    "form ''date'' = Some d" "se \<noteq> []" "sh \<noteq> []" "d \<noteq> []"
    by (cases "form ''seats''"; cases "form ''showtime''"; cases "form ''date''") auto
  show ?thesis
  proof (cases "first_booking k (u_id cu) sh d bs")
    case (Inl e)
    with f have "snd (movie_page_post cu k form now bs) = bs"
      by (simp add: movie_page_post_def)
    then show ?thesis by (rule unchanged)
  next
    case (Inr existing)
    show ?thesis
    proof (cases existing)
      case (Some b)
      with f Inr have "snd (movie_page_post cu k form now bs) = bs"
        by (simp add: movie_page_post_def)
      then show ?thesis by (rule unchanged)
    next
      case None
      with Inr have q: "first_booking k (u_id cu) sh d bs = Inr None" by simp
      then have r: "sqlite_int k" "sqlite_int (u_id cu)"
        and fresh: "\<And>b. b \<in> set bs \<Longrightarrow> booking_key b \<noteq> (u_id cu, k, sh, d)"
        by (simp_all add: first_booking_None)
      show ?thesis
      proof (cases "py_int se")
        case no: None
        with f q have "snd (movie_page_post cu k form now bs) = bs"
          by (simp add: movie_page_post_def)
        then show ?thesis by (rule unchanged)
      next
        case (Some n)
        show ?thesis
        proof (cases "sqlite_int n")
          case False
          with f q Some have "snd (movie_page_post cu k form now bs) = bs"
            by (simp add: movie_page_post_def add_commit_def)
          then show ?thesis by (rule unchanged)
        next
          case True
          with f q Some r have "movie_page_post cu k form now bs =
             (Inr (True, Some BookingSuccessful, Some ''success''),
              bs @ [\<lparr>b_id = next_id bs, b_user_id = u_id cu, b_movie_id = k,
                      b_movie_title = or_default (form ''movie_title'') (uni ''Unknown''),
                      b_name = u_name cu, b_email = u_email cu, b_seats = n, b_showtime = sh,
                      b_date = d, b_created_at = now\<rparr>])"
            by (simp add: movie_page_post_def add_commit_def)
          with f Some fresh show ?thesis using r True by (rule added)
        qed
      qed
    qed
  qed
qed


lemma movie_page_post_ids:
  assumes "distinct (map b_id bs)"
  shows "distinct (map b_id (snd (movie_page_post cu k form now bs)))"
proof (cases cu k form now bs rule: movie_page_post_cases)
  case unchanged
  with assms show ?thesis by simp
next
  case (added se sh d n)
  have "next_id bs \<notin> b_id ` set bs" using next_id_greater [of _ bs] by force
  with assms show ?thesis by (simp add: added(9))
qed

lemma cancel_booking_bookings:
  "bookings (snd (cancel_booking current_user bid s)) = bookings s \<or>
   bookings (snd (cancel_booking current_user bid s)) = filter (\<lambda>r. b_id r \<noteq> bid) (bookings s)"
  by (auto simp: cancel_booking_def first_owned_def delete_commit_def find_Some_iff
      split: option.splits sum.splits if_splits)


lemma reachable_ids: "reachable s \<Longrightarrow> distinct (map b_id (bookings s))"
proof (induction rule: reachable.induct)
  case start
  show ?case by simp
next
  case (page s rq w movie_id)
  with movie_page_bookings [of rq w movie_id s] show ?case
    by (auto simp: movie_page_post_ids)
next
  case (cancel s current_user booking_id)
  with cancel_booking_bookings [of current_user booking_id s] show ?case
    by (auto simp: distinct_map_filter)
next
  case (recent s discover trending wo)
  then show ?case by simp
next
  case (details s detail wo movie_id)
  then show ?case by simp
qed

section \<open>Outcomes of a booking request\<close>

lemma py_int_empty: "py_int [] = None"
  by (simp add: py_int_def strip_def)

lemma movie_page_post_blank:
  assumes "\<not> (filled (form ''seats'') \<and> filled (form ''showtime'') \<and> filled (form ''date''))"
  shows "movie_page_post cu k form now bs =
           (Inr (False, Some CompleteAllFields, Some ''warning''), bs)"
  using assms by (auto simp: movie_page_post_def)


lemma movie_page_post_unparsed:
  assumes "form ''seats'' = Some se" "py_int se = None"
  shows "snd (movie_page_post cu k form now bs) = bs"
  using assms by (cases cu k form now bs rule: movie_page_post_cases) auto

lemma movie_page_post_added:
  assumes "form ''seats'' = Some se" "py_int se = Some n" "sqlite_int n"
    "form ''showtime'' = Some sh" "sh \<noteq> []" "form ''date'' = Some d" "d \<noteq> []"
    "sqlite_int k" "sqlite_int (u_id cu)"
    "\<forall>b \<in> set bs. booking_key b \<noteq> (u_id cu, k, sh, d)"
  shows "movie_page_post cu k form now bs =
         (Inr (True, Some BookingSuccessful, Some ''success''),
          bs @ [\<lparr>b_id = next_id bs, b_user_id = u_id cu, b_movie_id = k,
                  b_movie_title = or_default (form ''movie_title'') (uni ''Unknown''),
                  b_name = u_name cu, b_email = u_email cu, b_seats = n, b_showtime = sh,
                  b_date = d, b_created_at = now\<rparr>])"
proof -
  from assms(2) have se: "se \<noteq> []" using py_int_empty by auto
  from assms(8-10) have "first_booking k (u_id cu) sh d bs = Inr None"
    by (simp add: first_booking_None)
  with assms(1-9) se show ?thesis by (simp add: movie_page_post_def add_commit_def)
qed


text \<open>What \<^verbatim>\<open>movie_page\<close> makes of the outcome of its \<^verbatim>\<open>POST\<close> block.\<close>

lemma movie_page_after_post:
  assumes "rq_user rq = Some cu" "rq_method rq = POST"
    "movie_page_post cu k (rq_form rq) (w_now w) (bookings s) = (Inr (ok, msg, mt), bs')"
  shows "bookings (snd (movie_page rq w k s)) = bs' \<and>
    (case fst (get_movie_details (w_detail w) (w_write w) k (cache s)) of
       Inl e \<Rightarrow> fst (movie_page rq w k s) = Inl e
     | Inr movie \<Rightarrow>
         fst (movie_page rq w k s) =
           Inr (if py_truthy movie
                then MovieHtml movie ok (map (\<lambda>i. w_today w + int i) [0..<7]) msg mt
                else MovieHtml JNull False [] (Some DetailsUnavailable) (Some ''error'')))"
  using assms
  by (cases "get_movie_details (w_detail w) (w_write w) k (cache s)")
     (auto simp: movie_page_def split: sum.splits)

lemma movie_page_post_raised:
  assumes "rq_user rq = Some cu" "rq_method rq = POST"
    "movie_page_post cu k (rq_form rq) (w_now w) (bookings s) = (Inl e, bs')"
  shows "movie_page rq w k s = (Inl e, s\<lparr>bookings := bs'\<rparr>)"
  using assms by (simp add: movie_page_def)

lemma movie_page_commits:
  assumes "rq_user rq = Some cu" "rq_method rq = POST"
    "rq_form rq ''seats'' = Some se" "py_int se = Some n" "sqlite_int n"
    "rq_form rq ''showtime'' = Some sh" "sh \<noteq> []" "rq_form rq ''date'' = Some d" "d \<noteq> []"
    "sqlite_int k" "sqlite_int (u_id cu)"
    "\<forall>b \<in> set (bookings s). booking_key b \<noteq> (u_id cu, k, sh, d)"
  shows "bookings (snd (movie_page rq w k s)) =
           bookings s @ [\<lparr>b_id = next_id (bookings s), b_user_id = u_id cu, b_movie_id = k,
                           b_movie_title = or_default (rq_form rq ''movie_title'') (uni ''Unknown''),
                           b_name = u_name cu, b_email = u_email cu, b_seats = n,
                           b_showtime = sh, b_date = d, b_created_at = w_now w\<rparr>] \<and>
    (case fst (get_movie_details (w_detail w) (w_write w) k (cache s)) of
       Inl e \<Rightarrow> fst (movie_page rq w k s) = Inl e
     | Inr movie \<Rightarrow>
         fst (movie_page rq w k s) =
           Inr (if py_truthy movie
                then MovieHtml movie True (map (\<lambda>i. w_today w + int i) [0..<7])
                       (Some BookingSuccessful) (Some ''success'')
                else MovieHtml JNull False [] (Some DetailsUnavailable) (Some ''error'')))"
  by (rule movie_page_after_post [OF assms(1,2) movie_page_post_added [OF assms(3-12)]])


lemma find_owned:
  assumes "distinct (map b_id bs)"
    "find (\<lambda>b. b_id b = bid \<and> b_email b = em) bs = Some x"
  shows "filter (\<lambda>r. b_id r \<noteq> b_id x) bs = filter (\<lambda>b. \<not> (b_id b = bid \<and> b_email b = em)) bs"
proof (rule filter_cong [OF refl])
  fix r
  assume r: "r \<in> set bs"
  from assms(2) have x: "x \<in> set bs" "b_id x = bid" "b_email x = em"
    by (auto simp: find_Some_iff)
  from assms(1) have "inj_on b_id (set bs)" by (simp add: distinct_map)
  with r x(1) have "b_id r = b_id x \<Longrightarrow> r = x" by (auto dest: inj_onD)
  with x show "(b_id r \<noteq> b_id x) = (\<not> (b_id r = bid \<and> b_email r = em))" by auto
qed

text \<open>The three ways in which the \<^verbatim>\<open>POST\<close> block raises.\<close>

lemma movie_page_post_value_error:
  assumes "form ''seats'' = Some se" "se \<noteq> []" "py_int se = None"
    "form ''showtime'' = Some sh" "sh \<noteq> []" "form ''date'' = Some d" "d \<noteq> []"
    "sqlite_int k" "sqlite_int (u_id cu)"
    "\<forall>b \<in> set bs. booking_key b \<noteq> (u_id cu, k, sh, d)"
  shows "movie_page_post cu k form now bs = (Inl ValueError, bs)"
proof -
  from assms(8-10) have "first_booking k (u_id cu) sh d bs = Inr None"
    by (simp add: first_booking_None)
  with assms(1-7) show ?thesis by (simp add: movie_page_post_def)
qed

lemma movie_page_post_overflow_query:
  assumes "form ''seats'' = Some se" "se \<noteq> []"
    "form ''showtime'' = Some sh" "sh \<noteq> []" "form ''date'' = Some d" "d \<noteq> []"
    "\<not> (sqlite_int k \<and> sqlite_int (u_id cu))"
  shows "movie_page_post cu k form now bs = (Inl OverflowError, bs)"
proof -
  from assms(7) have "first_booking k (u_id cu) sh d bs = Inl OverflowError"
    by (simp add: first_booking_def)
  with assms(1-6) show ?thesis by (simp add: movie_page_post_def)
qed

lemma movie_page_post_overflow_seats:
  assumes "form ''seats'' = Some se" "py_int se = Some n" "\<not> sqlite_int n"
    "form ''showtime'' = Some sh" "sh \<noteq> []" "form ''date'' = Some d" "d \<noteq> []"
    "sqlite_int k" "sqlite_int (u_id cu)"
    "\<forall>b \<in> set bs. booking_key b \<noteq> (u_id cu, k, sh, d)"
  shows "movie_page_post cu k form now bs = (Inl OverflowError, bs)"
proof -
  from assms(2) have se: "se \<noteq> []" using py_int_empty by auto
  from assms(8-10) have "first_booking k (u_id cu) sh d bs = Inr None"
    by (simp add: first_booking_None)
  with assms(1-7) se show ?thesis by (simp add: movie_page_post_def add_commit_def)
qed


section \<open>Facts about the sample inputs\<close>

lemma py_int_samples:
  "py_int (uni ''0'') = Some 0" "py_int (uni ''2'') = Some 2" "py_int (uni ''3'') = Some 3"
  "py_int (uni ''abc'') = None"
  "py_int (uni ''9223372036854775808'') = Some 9223372036854775808"
  by (simp_all add: py_int_def uni_def to_ascii_def strip_def is_space_def digits_def
      digit_of_def max_str_digits_def)

lemma py_int_unicode:
  "py_int [160, 50] = Some 2" "py_int [1635] = Some 3" "py_int [28, 52] = None"
  by (simp_all add: py_int_def to_ascii_def unicode_space_def decimal_value_def
      decimal_zeros_def strip_def is_space_def digits_def digit_of_def max_str_digits_def)

lemma sqlite_int_samples:
  "sqlite_int 0" "sqlite_int 1" "sqlite_int 2" "sqlite_int 3" "sqlite_int 7" "sqlite_int 603"
  "\<not> sqlite_int 9223372036854775808"
  by (simp_all add: sqlite_int_def)

lemma evening_fields:
  "evening se ''seats'' = Some (uni se)" "evening se ''showtime'' = Some (uni ''18:00'')"
  "evening se ''date'' = Some (uni ''2025-01-01'')" "evening se ''movie_title'' = None"
  by (simp_all add: evening_def)

lemma uni_filled: "uni ''18:00'' \<noteq> []" "uni ''2025-01-01'' \<noteq> []" "uni [] = []"
  by (simp_all add: uni_def)

lemma user_fields:
  "u_id alice = 1" "u_name alice = uni ''Alice''" "u_email alice = uni ''alice@example.com''"
  "u_id bob = 2" "u_name bob = uni ''Bob''" "u_email bob = uni ''bob@example.com''"
  "u_email bob \<noteq> u_email alice"
  by (simp_all add: alice_def bob_def uni_def)

lemma matrix_facts:
  "py_truthy matrix" "py_get matrix ''id'' = Inr (JInt 603)" "complete_record matrix"
  by (simp_all add: matrix_def complete_record_def)

lemma usable_values:
  "usable_movies JNull = Inr []"
  "usable_movies poor = Inr []"
  "usable_movies listing = Inr [matrix]"
  by (simp_all add: usable_movies_def complete_def poor_def listing_def matrix_def)

lemma usable_samples:
  "usable_movies (tmdb_get RequestFailed) = Inr []"
  "usable_movies (tmdb_get (Body poor)) = Inr []"
  "usable_movies (tmdb_get (Body listing)) = Inr [matrix]"
  by (simp_all add: usable_values)

lemma online_matrix:
  "get_movie_details (w_detail online) (w_write online) 603 c =
     (Inr matrix, c(movie_cache_file 603 \<mapsto> Valid matrix))"
  by (simp add: get_movie_details_def online_def matrix_def cache_write_def Let_def)

lemma offline_nothing:
  "get_movie_details (w_detail offline) (w_write offline) k Map.empty = (Inr JNull, Map.empty)"
  by (simp add: get_movie_details_def offline_def cache_read_def)

lemma offline_cached:
  "get_movie_details (w_detail offline) (w_write offline) 603 [movie_cache_file 603 \<mapsto> Valid matrix] =
     (Inr matrix, [movie_cache_file 603 \<mapsto> Valid matrix])"
  by (simp add: get_movie_details_def offline_def cache_read_def)

lemma world_fields:
  "w_now online = 1000" "w_today online = 20000" "w_now offline = 2000" "w_today offline = 20000"
  by (simp_all add: online_def offline_def)

lemma post_fields:
  "rq_user (post cu form) = Some cu" "rq_method (post cu form) = POST"
  "rq_form (post cu form) = form"
  by (simp_all add: post_def)

lemma initial_fields: "bookings initial = []" "cache initial = Map.empty"
  by (simp_all add: initial_def)

lemma reachable_initial: "reachable initial"
  unfolding initial_def by (rule reachable.start)

lemma alice_books_block:
  "movie_page_post alice 603 (evening ''2'') 1000 [] =
     (Inr (True, Some BookingSuccessful, Some ''success''), [alice_row])"
  using movie_page_post_added [of "evening ''2''" "uni ''2''" 2 "uni ''18:00''" "uni ''2025-01-01''"
      603 alice "[]" 1000]
  by (simp add: evening_fields py_int_samples sqlite_int_samples uni_filled user_fields
      next_id_def alice_row_def)

lemma alice_books:
  "movie_page (post alice (evening ''2'')) online 603 initial =
     (Inr (MovieHtml matrix True (map (\<lambda>i. w_today online + int i) [0..<7])
             (Some BookingSuccessful) (Some ''success'')),
      \<lparr>bookings = [alice_row], cache = [movie_cache_file 603 \<mapsto> Valid matrix]\<rparr>)"
  by (simp add: movie_page_def post_fields initial_fields world_fields alice_books_block
      online_matrix matrix_facts)

lemma booked_once_eq:
  "booked_once = \<lparr>bookings = [alice_row], cache = [movie_cache_file 603 \<mapsto> Valid matrix]\<rparr>"
  by (simp add: booked_once_def alice_books)

lemma reachable_booked_once: "reachable booked_once"
  unfolding booked_once_def by (intro reachable.page reachable_initial)

lemma booked_twice_eq:
  "booked_twice =
     \<lparr>bookings = [alice_row, bob_row], cache = [movie_cache_file 603 \<mapsto> Valid matrix]\<rparr>"
proof -
  have "\<forall>b \<in> set [alice_row]. booking_key b \<noteq> (u_id bob, 603, uni ''18:00'', uni ''2025-01-01'')"
    by (simp add: alice_row_def booking_key_def user_fields)
  from movie_page_post_added [of "evening ''3''" "uni ''3''" 3 "uni ''18:00''" "uni ''2025-01-01''"
      603 bob "[alice_row]" 2000, OF _ _ _ _ _ _ _ _ _ this]
  have p: "movie_page_post bob 603 (evening ''3'') 2000 [alice_row] =
      (Inr (True, Some BookingSuccessful, Some ''success''), [alice_row, bob_row])"
    by (simp add: evening_fields py_int_samples sqlite_int_samples uni_filled user_fields
        next_id_def alice_row_def bob_row_def)
  show ?thesis
    by (simp add: booked_twice_def booked_once_eq movie_page_def post_fields world_fields p
        offline_cached matrix_facts)
qed

lemma reachable_booked_twice: "reachable booked_twice"
  unfolding booked_twice_def booked_once_def
  by (intro reachable.page reachable_initial)

lemma listed_cache: "cache listed = [recent_cache_file \<mapsto> Valid (JArr [matrix])]"
  by (simp add: listed_def initial_def get_recent_movies_def usable_values cache_write_def Let_def)

lemma reachable_listed: "reachable listed"
  unfolding listed_def by (intro reachable.recent reachable_initial)


section \<open>Validation of a booking form\<close>

text \<open>
  Against claim C1 as stated: with seats \<^verbatim>\<open>"0"\<close> the booking succeeds and a row with
  seat count 0 is stored; with seats \<^verbatim>\<open>"abc"\<close> the view raises \<^verbatim>\<open>ValueError\<close>
  instead of answering with the validation message; and with an empty seats field, when
  the movie details cannot be had, the page carries the message that the details are
  unavailable, of type \<^verbatim>\<open>error\<close>, not the validation message.
\<close>

theorem booking_seats_unchecked:
  "py_int (uni ''0'') = Some 0 \<and>
   fst (movie_page (post alice (evening ''0'')) online 603 initial) =
     Inr (MovieHtml matrix True [20000, 20001, 20002, 20003, 20004, 20005, 20006]
            (Some BookingSuccessful) (Some ''success'')) \<and>
   map b_seats (bookings (snd (movie_page (post alice (evening ''0'')) online 603 initial))) = [0] \<and>
   py_int (uni ''abc'') = None \<and>
   fst (movie_page (post alice (evening ''abc'')) online 603 initial) = Inl ValueError \<and>
   evening [] ''seats'' = Some [] \<and>
   movie_page (post alice (evening [])) offline 603 initial =
     (Inr (MovieHtml JNull False [] (Some DetailsUnavailable) (Some ''error'')), initial)"
proof -
  note zero = py_int_samples(1) and abc = py_int_samples(4)
  from movie_page_post_added [of "evening ''0''" "uni ''0''" 0 "uni ''18:00''" "uni ''2025-01-01''"
      603 alice "[]" 1000]
  have p0: "movie_page_post alice 603 (evening ''0'') 1000 [] =
      (Inr (True, Some BookingSuccessful, Some ''success''), [alice_row\<lparr>b_seats := 0\<rparr>])"
    by (simp add: evening_fields zero sqlite_int_samples uni_filled user_fields next_id_def
        alice_row_def)
  have "uni ''abc'' \<noteq> []" by (simp add: uni_def)
  with movie_page_post_value_error [of "evening ''abc''" "uni ''abc''" "uni ''18:00''"
      "uni ''2025-01-01''" 603 alice "[]" 1000]
  have pa: "movie_page_post alice 603 (evening ''abc'') 1000 [] = (Inl ValueError, [])"
    by (simp add: evening_fields abc sqlite_int_samples uni_filled user_fields)
  have pb: "movie_page_post alice 603 (evening []) 2000 [] =
      (Inr (False, Some CompleteAllFields, Some ''warning''), [])"
    by (rule movie_page_post_blank) (simp add: evening_fields uni_filled)
  have d: "map (\<lambda>i. 20000 + int i) [0..<7] = [20000, 20001, 20002, 20003, 20004, 20005, 20006]"
    by (simp add: upt_rec)
  have r0: "movie_page (post alice (evening ''0'')) online 603 initial =
      (Inr (MovieHtml matrix True [20000, 20001, 20002, 20003, 20004, 20005, 20006]
             (Some BookingSuccessful) (Some ''success'')),
       \<lparr>bookings = [alice_row\<lparr>b_seats := 0\<rparr>],
        cache = [movie_cache_file 603 \<mapsto> Valid matrix]\<rparr>)"
    by (simp add: movie_page_def post_fields initial_fields world_fields p0 online_matrix
        matrix_facts d)
  have ra: "movie_page (post alice (evening ''abc'')) online 603 initial =
      (Inl ValueError, initial)"
    by (simp add: movie_page_def post_fields initial_fields world_fields pa initial_def)
  have rb: "movie_page (post alice (evening [])) offline 603 initial =
     (Inr (MovieHtml JNull False [] (Some DetailsUnavailable) (Some ''error'')), initial)"
    by (simp add: movie_page_def post_fields initial_fields world_fields pb offline_nothing
        initial_def)
  have e: "evening [] ''seats'' = Some []" by (simp add: evening_fields uni_filled)
  from r0 have s0: "map b_seats (bookings (snd (movie_page (post alice (evening ''0'')) online 603
      initial))) = [0]"
    by simp
  from zero abc r0 s0 ra e rb show ?thesis by simp
qed

text \<open>
  Claim C1, amended. A \<^verbatim>\<open>POST\<close> by an authenticated user whose seats, showtime or date
  field is missing or empty is classified as a validation failure (the message to
  complete all fields, type \<^verbatim>\<open>warning\<close>), creates no row, and the page shows that
  message whenever the movie details are found. A seats value that \<^verbatim>\<open>int\<close> does not
  accept creates no row either.
\<close>

theorem booking_rejects_blank_fields:
  assumes "rq_user rq = Some cu" and "rq_method rq = POST"
  shows "(\<not> (filled (rq_form rq ''seats'') \<and> filled (rq_form rq ''showtime'') \<and>
             filled (rq_form rq ''date'')) \<longrightarrow>
            movie_page_post cu k (rq_form rq) (w_now w) (bookings s) =
              (Inr (False, Some CompleteAllFields, Some ''warning''), bookings s) \<and>
            bookings (snd (movie_page rq w k s)) = bookings s \<and>
            (\<forall>movie. fst (get_movie_details (w_detail w) (w_write w) k (cache s)) = Inr movie \<and>
                py_truthy movie \<longrightarrow>
                fst (movie_page rq w k s) =
                  Inr (MovieHtml movie False (map (\<lambda>i. w_today w + int i) [0..<7])
                         (Some CompleteAllFields) (Some ''warning'')))) \<and>
         (\<forall>se. rq_form rq ''seats'' = Some se \<and> py_int se = None \<longrightarrow>
            bookings (snd (movie_page rq w k s)) = bookings s)"
proof (intro conjI impI allI)
  assume blank: "\<not> (filled (rq_form rq ''seats'') \<and> filled (rq_form rq ''showtime'') \<and>
             filled (rq_form rq ''date''))"
  then show p: "movie_page_post cu k (rq_form rq) (w_now w) (bookings s) =
              (Inr (False, Some CompleteAllFields, Some ''warning''), bookings s)"
    by (rule movie_page_post_blank)
  from movie_page_after_post [OF assms p]
  show "bookings (snd (movie_page rq w k s)) = bookings s" by simp
  fix movie
  assume "fst (get_movie_details (w_detail w) (w_write w) k (cache s)) = Inr movie \<and>
                py_truthy movie"
  with movie_page_after_post [OF assms p]
  show "fst (movie_page rq w k s) =
                  Inr (MovieHtml movie False (map (\<lambda>i. w_today w + int i) [0..<7])
                         (Some CompleteAllFields) (Some ''warning''))" by simp
next
  fix se
  assume "rq_form rq ''seats'' = Some se \<and> py_int se = None"
  then have "snd (movie_page_post cu k (rq_form rq) (w_now w) (bookings s)) = bookings s"
    by (simp add: movie_page_post_unparsed)
  with movie_page_bookings [of rq w k s] assms
  show "bookings (snd (movie_page rq w k s)) = bookings s" by auto
qed

theorem booking_rejects_blank_fields_witness:
  "rq_user (post alice (evening [])) = Some alice \<and>
   rq_method (post alice (evening [])) = POST \<and>
   \<not> filled (rq_form (post alice (evening [])) ''seats'') \<and>
   bookings (snd (movie_page (post alice (evening [])) online 603 initial)) = [] \<and>
   rq_form (post alice (evening ''abc'')) ''seats'' = Some (uni ''abc'') \<and>
   py_int (uni ''abc'') = None \<and>
   bookings (snd (movie_page (post alice (evening ''abc'')) online 603 initial)) = [] \<and>
   fst (movie_page (post alice (evening [])) online 603 initial) =
     Inr (MovieHtml matrix False (map (\<lambda>i. w_today online + int i) [0..<7])
            (Some CompleteAllFields) (Some ''warning''))"
proof -
  have u: "rq_user (post alice (evening [])) = Some alice"
    and m: "rq_method (post alice (evening [])) = POST"
    by (simp_all add: post_fields)
  have b: "\<not> filled (rq_form (post alice (evening [])) ''seats'')"
    by (simp add: post_fields evening_fields uni_filled)
  have d: "fst (get_movie_details (w_detail online) (w_write online) 603 (cache initial)) =
      Inr matrix \<and> py_truthy matrix"
    by (simp add: online_matrix matrix_facts)
  note i = initial_fields(1)
  have u': "rq_user (post alice (evening ''abc'')) = Some alice"
    and m': "rq_method (post alice (evening ''abc'')) = POST"
    and a: "rq_form (post alice (evening ''abc'')) ''seats'' = Some (uni ''abc'')"
    by (simp_all add: post_fields evening_fields)
  from booking_rejects_blank_fields [OF u' m', where k = 603 and w = online and s = initial]
    a py_int_samples(4) i
  have "bookings (snd (movie_page (post alice (evening ''abc'')) online 603 initial)) = []"
    by simp
  with booking_rejects_blank_fields [OF u m, where k = 603 and w = online and s = initial]
    b d i u m a py_int_samples(4)
  show ?thesis by simp
qed


section \<open>One booking per user, movie, showtime and date\<close>





section \<open>Movie details carry the requested identifier\<close>

text \<open>
  Claim C3. In a reachable state, \<^verbatim>\<open>get_movie_details(movie_id)\<close> returns \<^verbatim>\<open>None\<close> or
  a record whose \<^verbatim>\<open>id\<close> is equal (Python's \<^verbatim>\<open>==\<close>) to \<^verbatim>\<open>movie_id\<close>, from the live
  answer and from the snapshot file alike. It raises only when the live answer is a
  value without a \<^verbatim>\<open>get\<close> method, so never on a failed request or on a JSON object.
\<close>

theorem get_movie_details_identifier:
  assumes "reachable s"
  shows "case fst (get_movie_details detail w k (cache s)) of
           Inr v \<Rightarrow> v = JNull \<or> (\<exists>i. py_get v ''id'' = Inr i \<and> py_eq_int i k)
         | Inl e \<Rightarrow> py_truthy (tmdb_get detail) \<and> py_get (tmdb_get detail) ''id'' = Inl e"
proof -
  from assms have ok: "cache_ok (cache s)" by (rule reachable_cache_ok)
  have cached: "cache_read (movie_cache_file k) (cache s) = JNull \<or>
      (\<exists>i. py_get (cache_read (movie_cache_file k) (cache s)) ''id'' = Inr i \<and> py_eq_int i k)"
  proof (cases "cache s (movie_cache_file k)")
    case None
    then show ?thesis by (simp add: cache_read_def)
  next
    case (Some fc)
    show ?thesis
    proof (cases fc)
      case Unreadable
      with Some show ?thesis by (simp add: cache_read_def)
    next
      case (Valid v)
      with Some ok have "\<exists>i. py_get v ''id'' = Inr i \<and> py_eq_int i k"
        by (simp add: cache_ok_def)
      with Some Valid show ?thesis by (simp add: cache_read_def)
    qed
  qed
  show ?thesis
  proof (cases "py_truthy (tmdb_get detail)")
    case False
    with cached show ?thesis by (simp add: get_movie_details_def)
  next
    case True
    show ?thesis
    proof (cases "py_get (tmdb_get detail) ''id''")
      case (Inl e)
      with True show ?thesis by (simp add: get_movie_details_def)
    next
      case (Inr i)
      show ?thesis
      proof (cases "py_eq_int i k")
        case False
        with True Inr cached show ?thesis by (simp add: get_movie_details_def)
      next
        case eq: True
        have "fst (cache_write w (movie_cache_file k) (tmdb_get detail) (cache s)) = Inr ()"
          by (rule cache_write_fst)
        then obtain c' where
          "cache_write w (movie_cache_file k) (tmdb_get detail) (cache s) = (Inr (), c')"
          by (cases "cache_write w (movie_cache_file k) (tmdb_get detail) (cache s)") auto
        with True Inr eq show ?thesis by (simp add: get_movie_details_def)
      qed
    qed
  qed
qed

theorem get_movie_details_identifier_witness:
  "reachable booked_once \<and>
   cache booked_once (movie_cache_file 603) = Some (Valid matrix) \<and>
   fst (get_movie_details RequestFailed OpenRaises 603 (cache booked_once)) = Inr matrix \<and>
   py_get matrix ''id'' = Inr (JInt 603) \<and>
   py_eq_int (JInt 603) 603"
proof -
  have c: "cache booked_once (movie_cache_file 603) = Some (Valid matrix)"
    by (simp add: booked_once_eq)
  then have e: "fst (get_movie_details RequestFailed OpenRaises 603 (cache booked_once)) = Inr matrix"
    by (simp add: get_movie_details_def cache_read_def)
  from get_movie_details_identifier [OF reachable_booked_once, where detail = RequestFailed
      and w = OpenRaises and k = 603] e
  have "\<exists>i. py_get matrix ''id'' = Inr i \<and> py_eq_int i 603"
    by (simp add: matrix_def)
  then have "py_eq_int (JInt 603) 603" by (simp add: matrix_facts)
  with reachable_booked_once c e matrix_facts(2) show ?thesis by blast
qed


section \<open>The recent list\<close>

text \<open>
  Claim C4. When the recent query and the trending query both fail or give no complete
  record, \<^verbatim>\<open>get_recent_movies\<close> returns the list stored in the snapshot file of the
  recent list, and the empty list when the file is missing or unreadable; the cache
  stays as it is.
\<close>

theorem get_recent_movies_fallback:
  assumes "usable_movies (tmdb_get discover) = Inr []"
    and "usable_movies (tmdb_get trending) = Inr []"
  shows "snd (get_recent_movies discover trending w c) = c \<and>
    (\<forall>ms. c recent_cache_file = Some (Valid (JArr ms)) \<longrightarrow>
       fst (get_recent_movies discover trending w c) = Inr (JArr ms)) \<and>
    (c recent_cache_file = None \<or> c recent_cache_file = Some Unreadable \<longrightarrow>
       fst (get_recent_movies discover trending w c) = Inr (JArr []))"
proof -
  have "get_recent_movies discover trending w c =
      (Inr (if py_truthy (cache_read recent_cache_file c)
            then cache_read recent_cache_file c else JArr []), c)"
    using assms by (simp add: get_recent_movies_def Let_def)
  then show ?thesis by (auto simp: cache_read_def)
qed

theorem get_recent_movies_fallback_witness:
  "usable_movies (tmdb_get RequestFailed) = Inr [] \<and>
   usable_movies (tmdb_get (Body poor)) = Inr [] \<and>
   cache listed recent_cache_file = Some (Valid (JArr [matrix])) \<and>
   get_recent_movies RequestFailed (Body poor) OpenRaises (cache listed) =
     (Inr (JArr [matrix]), cache listed) \<and>
   (Map.empty :: cache) recent_cache_file = None \<and>
   get_recent_movies RequestFailed (Body poor) OpenRaises Map.empty = (Inr (JArr []), Map.empty)"
proof -
  have h: "cache listed recent_cache_file = Some (Valid (JArr [matrix]))"
    by (simp add: listed_cache)
  have n: "(Map.empty :: cache) recent_cache_file = None" by simp
  from get_recent_movies_fallback [OF usable_samples(1,2), where w = OpenRaises
      and c = "cache listed"] h
  have a: "get_recent_movies RequestFailed (Body poor) OpenRaises (cache listed) =
     (Inr (JArr [matrix]), cache listed)"
    by (metis prod.collapse)
  from get_recent_movies_fallback [OF usable_samples(1,2), where w = OpenRaises
      and c = Map.empty] n
  have b: "get_recent_movies RequestFailed (Body poor) OpenRaises Map.empty =
     (Inr (JArr []), Map.empty)"
    by (metis prod.collapse)
  from usable_samples(1,2) h a n b show ?thesis by blast
qed

text \<open>
  Claim C5. In a reachable state, every record of the list that \<^verbatim>\<open>get_recent_movies\<close>
  returns has an identifier, a title and a poster path that are not empty, whichever of
  the two queries or the snapshot file the list comes from. And it does return a list
  whenever the two answers keep to the interface of the list endpoints.
\<close>

theorem get_recent_movies_complete:
  assumes "reachable s"
  shows "(\<forall>v. fst (get_recent_movies discover trending w (cache s)) = Inr v \<longrightarrow>
            (\<exists>ms. v = JArr ms \<and> (\<forall>m \<in> set ms. complete_record m))) \<and>
         (list_answer discover \<and> list_answer trending \<longrightarrow>
            (\<exists>v. fst (get_recent_movies discover trending w (cache s)) = Inr v))"
proof -
  from assms have ok: "cache_ok (cache s)" by (rule reachable_cache_ok)
  have "\<exists>v. fst (get_recent_movies discover trending w (cache s)) = Inr v"
    if la: "list_answer discover" "list_answer trending"
  proof (cases "fst (get_recent_movies discover trending w (cache s))")
    case (Inl e)
    from get_recent_movies_raises [OF Inl] usable_movies_list_answer [OF la(1)]
      usable_movies_list_answer [OF la(2)]
    show ?thesis by auto
  next
    case (Inr v)
    then show ?thesis by blast
  qed
  with get_recent_movies_returns [OF ok] show ?thesis by blast
qed

theorem get_recent_movies_complete_witness:
  "reachable listed \<and>
   list_answer RequestFailed \<and>
   fst (get_recent_movies RequestFailed RequestFailed Written (cache listed)) =
     Inr (JArr [matrix]) \<and>
   complete_record matrix \<and>
   list_answer (Body listing) \<and>
   fst (get_recent_movies (Body listing) RequestFailed Written (cache initial)) =
     Inr (JArr [matrix])"
proof -
  have e: "fst (get_recent_movies RequestFailed RequestFailed Written (cache listed)) =
      Inr (JArr [matrix])"
    by (simp add: get_recent_movies_def usable_values listed_cache cache_read_def Let_def)
  have f: "fst (get_recent_movies (Body listing) RequestFailed Written (cache initial)) =
      Inr (JArr [matrix])"
    by (simp add: get_recent_movies_def usable_values cache_write_def initial_def Let_def)
  have l: "list_answer RequestFailed" "list_answer (Body listing)"
    by (simp_all add: listing_def matrix_def)
  from get_recent_movies_complete [OF reachable_listed, where discover = RequestFailed
      and trending = RequestFailed and w = Written] e
  have "complete_record matrix" by simp
  with reachable_listed l e f show ?thesis by blast
qed


section \<open>Cancellation\<close>

text \<open>
  Against claim C6 as stated: the route takes the identifier 9223372036854775808, no row
  has it, and the lookup raises \<^verbatim>\<open>OverflowError\<close> instead of redirecting.
\<close>

theorem cancel_booking_overflow:
  "filter (\<lambda>b. b_id b = 9223372036854775808) (bookings booked_twice) = [] \<and>
   cancel_booking (Some alice) 9223372036854775808 booked_twice =
     (Inl OverflowError, booked_twice)"
  by (simp add: cancel_booking_def first_owned_def sqlite_int_samples booked_twice_eq
      alice_row_def bob_row_def)

text \<open>
  Claim C6, amended. For a booking identifier inside the store's signed 64-bit integers
  and an authenticated user, \<^verbatim>\<open>cancel_booking\<close> does not raise; in a reachable state it
  removes exactly the rows whose key is the given identifier and whose stored email is
  the acting user's, and keeps every other row as it is; when no row with that
  identifier carries the user's email (it belongs to someone else, or there is none), the
  state is unchanged and the answer is the redirect to the dashboard.
\<close>

theorem cancel_booking_owner_only:
  assumes "reachable s" and "sqlite_int bid"
  shows "(\<exists>r. fst (cancel_booking (Some cu) bid s) = Inr r) \<and>
    bookings (snd (cancel_booking (Some cu) bid s)) =
      filter (\<lambda>b. \<not> (b_id b = bid \<and> b_email b = u_email cu)) (bookings s) \<and>
    cache (snd (cancel_booking (Some cu) bid s)) = cache s \<and>
    ((\<forall>b \<in> set (bookings s). b_id b = bid \<longrightarrow> b_email b \<noteq> u_email cu) \<longrightarrow>
       cancel_booking (Some cu) bid s = (Inr (Redirect ''dashboard''), s))"
proof (cases "find (\<lambda>b. b_id b = bid \<and> b_email b = u_email cu) (bookings s)")
  case None
  then have "\<forall>b \<in> set (bookings s). \<not> (b_id b = bid \<and> b_email b = u_email cu)"
    by (simp add: find_None_iff)
  then have "filter (\<lambda>b. \<not> (b_id b = bid \<and> b_email b = u_email cu)) (bookings s) = bookings s"
    by (simp add: filter_id_conv)
  with None assms(2) show ?thesis by (simp add: cancel_booking_def first_owned_def)
next
  case (Some x)
  then have "x \<in> set (bookings s)" "b_id x = bid" "b_email x = u_email cu"
    by (auto simp: find_Some_iff)
  then have "\<not> (\<forall>b \<in> set (bookings s). b_id b = bid \<longrightarrow> b_email b \<noteq> u_email cu)"
    by blast
  with Some assms(2) find_owned [OF reachable_ids [OF assms(1)] Some] show ?thesis
    by (simp add: cancel_booking_def first_owned_def delete_commit_def)
qed

theorem cancel_booking_owner_only_witness:
  "reachable booked_twice \<and> sqlite_int 2 \<and> sqlite_int 7 \<and> sqlite_int 1 \<and>
   map b_email (filter (\<lambda>b. b_id b = 2) (bookings booked_twice)) = [u_email bob] \<and>
   cancel_booking (Some alice) 2 booked_twice = (Inr (Redirect ''dashboard''), booked_twice) \<and>
   cancel_booking (Some alice) 7 booked_twice = (Inr (Redirect ''dashboard''), booked_twice) \<and>
   fst (cancel_booking (Some alice) 1 booked_twice) =
     Inr (BookingCancelledHtml BookingCancelled ''error'') \<and>
   bookings (snd (cancel_booking (Some alice) 1 booked_twice)) = [bob_row]"
proof -
  note e = user_fields(3,6,7)
  have rows: "b_id alice_row = 1" "b_id bob_row = 2" "b_email alice_row = u_email alice"
    "b_email bob_row = u_email bob"
    by (simp_all add: alice_row_def bob_row_def user_fields)
  have other: "map b_email (filter (\<lambda>b. b_id b = 2) (bookings booked_twice)) = [u_email bob]"
    by (simp add: booked_twice_eq rows)
  from cancel_booking_owner_only [OF reachable_booked_twice sqlite_int_samples(3),
      where cu = alice]
  have two: "cancel_booking (Some alice) 2 booked_twice = (Inr (Redirect ''dashboard''), booked_twice)"
    by (simp add: booked_twice_eq rows e(3))
  from cancel_booking_owner_only [OF reachable_booked_twice sqlite_int_samples(5),
      where cu = alice]
  have seven: "cancel_booking (Some alice) 7 booked_twice = (Inr (Redirect ''dashboard''), booked_twice)"
    by (simp add: booked_twice_eq rows)
  from cancel_booking_owner_only [OF reachable_booked_twice sqlite_int_samples(2),
      where cu = alice]
  have one: "bookings (snd (cancel_booking (Some alice) 1 booked_twice)) = [bob_row]"
    by (simp add: booked_twice_eq rows e(3))
  have page: "fst (cancel_booking (Some alice) 1 booked_twice) =
     Inr (BookingCancelledHtml BookingCancelled ''error'')"
    by (simp add: cancel_booking_def first_owned_def sqlite_int_samples booked_twice_eq rows)
  from reachable_booked_twice sqlite_int_samples(2,3,5) other two seven one page
  show ?thesis by blast
qed


section \<open>Cache writes that fail\<close>

text \<open>
  Claim C7. \<^verbatim>\<open>cache_write\<close> returns normally whatever happens to the write, and when
  the recent query gives a non-empty list of complete records, \<^verbatim>\<open>get_recent_movies\<close>
  returns that list whether the write succeeded or not.
\<close>

theorem cache_write_failure_swallowed:
  "fst (cache_write w path data c) = Inr () \<and>
   (\<forall>ms. usable_movies (tmdb_get discover) = Inr ms \<and> ms \<noteq> [] \<longrightarrow>
      fst (get_recent_movies discover trending w c) = Inr (JArr ms))"
  by (simp add: cache_write_fst get_recent_movies_fresh)

theorem cache_write_failure_swallowed_witness:
  "fst (write_text_dumps WriteRaises recent_cache_file (JArr [matrix]) Map.empty) = Inl OSError \<and>
   fst (cache_write WriteRaises recent_cache_file (JArr [matrix]) Map.empty) = Inr () \<and>
   usable_movies (tmdb_get (Body listing)) = Inr [matrix] \<and>
   fst (get_recent_movies (Body listing) RequestFailed WriteRaises Map.empty) = Inr (JArr [matrix])"
proof -
  have r: "fst (write_text_dumps WriteRaises recent_cache_file (JArr [matrix]) Map.empty) =
      Inl OSError"
    by simp
  from cache_write_failure_swallowed [where w = WriteRaises and path = recent_cache_file
      and data = "JArr [matrix]" and c = Map.empty and discover = "Body listing"
      and trending = RequestFailed] usable_samples(3)
  have "fst (cache_write WriteRaises recent_cache_file (JArr [matrix]) Map.empty) = Inr () \<and>
    fst (get_recent_movies (Body listing) RequestFailed WriteRaises Map.empty) = Inr (JArr [matrix])"
    by simp
  with r usable_samples(3) show ?thesis by blast
qed


section \<open>What a committed booking stores\<close>

text \<open>
  Claim C9. Whatever a booking submission stores, the \<^verbatim>\<open>movie_title\<close> of the new row
  is the \<^verbatim>\<open>movie_title\<close> of the form, and \<^verbatim>\<open>Unknown\<close> when the form has none or an
  empty one: after a \<^verbatim>\<open>POST\<close> by an authenticated user the table is the table before,
  or the table before with one new row that carries this title. A valid submission
  (complete form, seats that \<^verbatim>\<open>int\<close> accepts, integers that fit the store, no row yet
  for the user, movie, showtime and date) does store such a row. The title is a function
  of the form alone: the movie identifier, the answer of the metadata service and the
  snapshot cache have no part in it.
\<close>

theorem booking_title_from_form:
  assumes "rq_user rq = Some cu" and "rq_method rq = POST"
  shows "(bookings (snd (movie_page rq w k s)) = bookings s \<or>
          (\<exists>row. bookings (snd (movie_page rq w k s)) = bookings s @ [row] \<and>
             b_movie_title row =
               (case rq_form rq ''movie_title'' of
                  None \<Rightarrow> uni ''Unknown''
                | Some t \<Rightarrow> if t = [] then uni ''Unknown'' else t))) \<and>
         (\<forall>se n sh d.
            rq_form rq ''seats'' = Some se \<and> py_int se = Some n \<and>
            sqlite_int n \<and> sqlite_int k \<and> sqlite_int (u_id cu) \<and>
            rq_form rq ''showtime'' = Some sh \<and> sh \<noteq> [] \<and>
            rq_form rq ''date'' = Some d \<and> d \<noteq> [] \<and>
            (\<forall>b \<in> set (bookings s). booking_key b \<noteq> (u_id cu, k, sh, d)) \<longrightarrow>
            (\<exists>row. bookings (snd (movie_page rq w k s)) = bookings s @ [row] \<and>
               b_movie_title row =
                 (case rq_form rq ''movie_title'' of
                    None \<Rightarrow> uni ''Unknown''
                  | Some t \<Rightarrow> if t = [] then uni ''Unknown'' else t)))"
proof -
  let ?title = "case rq_form rq ''movie_title'' of
                  None \<Rightarrow> uni ''Unknown''
                | Some t \<Rightarrow> if t = [] then uni ''Unknown'' else t"
  have title: "or_default (rq_form rq ''movie_title'') (uni ''Unknown'') = ?title"
    by (cases "rq_form rq ''movie_title''") auto
  have block: "bookings (snd (movie_page rq w k s)) =
      snd (movie_page_post cu k (rq_form rq) (w_now w) (bookings s))"
  proof (cases "movie_page_post cu k (rq_form rq) (w_now w) (bookings s)")
    case (Pair res bs')
    show ?thesis
    proof (cases res)
      case (Inl e)
      with Pair assms show ?thesis by (simp add: movie_page_def)
    next
      case (Inr t)
      obtain ok msg mt where "t = (ok, msg, mt)" by (cases t)
      with Pair Inr movie_page_after_post [OF assms, of k w s ok msg mt bs']
      show ?thesis by simp
    qed
  qed
  have total: "bookings (snd (movie_page rq w k s)) = bookings s \<or>
      (\<exists>row. bookings (snd (movie_page rq w k s)) = bookings s @ [row] \<and>
         b_movie_title row = ?title)"
  proof (cases cu k "rq_form rq" "w_now w" "bookings s" rule: movie_page_post_cases)
    case unchanged
    with block show ?thesis by simp
  next
    case (added se sh d n)
    with block title show ?thesis by simp
  qed
  have valid: "\<exists>row. bookings (snd (movie_page rq w k s)) = bookings s @ [row] \<and>
      b_movie_title row = ?title"
    if "rq_form rq ''seats'' = Some se \<and> py_int se = Some n \<and>
        sqlite_int n \<and> sqlite_int k \<and> sqlite_int (u_id cu) \<and>
        rq_form rq ''showtime'' = Some sh \<and> sh \<noteq> [] \<and>
        rq_form rq ''date'' = Some d \<and> d \<noteq> [] \<and>
        (\<forall>b \<in> set (bookings s). booking_key b \<noteq> (u_id cu, k, sh, d))" for se n sh d
  proof -
    from that movie_page_commits [OF assms, of se n sh d k s w] title
    show ?thesis by simp
  qed
  from total valid show ?thesis by blast
qed

theorem booking_title_from_form_witness:
  "rq_user (post bob ((evening ''3'')(''movie_title'' \<mapsto> uni ''Alien''))) = Some bob \<and>
   rq_method (post bob ((evening ''3'')(''movie_title'' \<mapsto> uni ''Alien''))) = POST \<and>
   py_int (uni ''3'') = Some 3 \<and> sqlite_int 3 \<and> sqlite_int 603 \<and> sqlite_int (u_id bob) \<and>
   bookings booked_once = [alice_row] \<and>
   booking_key alice_row \<noteq> (u_id bob, 603, uni ''18:00'', uni ''2025-01-01'') \<and>
   map b_movie_title (bookings (snd (movie_page
       (post bob ((evening ''3'')(''movie_title'' \<mapsto> uni ''Alien''))) online 603 booked_once))) =
     [uni ''Unknown'', uni ''Alien''] \<and>
   map b_movie_title (bookings (snd (movie_page (post bob (evening ''3'')) offline 603 booked_once))) =
     [uni ''Unknown'', uni ''Unknown'']"
proof -
  let ?f = "(evening ''3'')(''movie_title'' \<mapsto> uni ''Alien'')"
  have rows: "bookings booked_once = [alice_row]" by (simp add: booked_once_eq)
  have key: "booking_key alice_row \<noteq> (u_id bob, 603, uni ''18:00'', uni ''2025-01-01'')"
    by (simp add: alice_row_def booking_key_def user_fields)
  have r: "sqlite_int 3" "sqlite_int 603" "sqlite_int (u_id bob)"
    by (simp_all add: sqlite_int_samples user_fields)
  have alien: "uni ''Alien'' \<noteq> []" by (simp add: uni_def)
  have titles: "map b_movie_title (bookings booked_once) = [uni ''Unknown'']"
    by (simp add: rows alice_row_def)
  have u: "rq_user (post bob ?f) = Some bob" "rq_method (post bob ?f) = POST"
    "rq_form (post bob ?f) ''seats'' = Some (uni ''3'')"
    "rq_form (post bob ?f) ''showtime'' = Some (uni ''18:00'')"
    "rq_form (post bob ?f) ''date'' = Some (uni ''2025-01-01'')"
    "rq_form (post bob ?f) ''movie_title'' = Some (uni ''Alien'')"
    by (simp_all add: post_fields evening_def)
  have v: "rq_user (post bob (evening ''3'')) = Some bob"
    "rq_method (post bob (evening ''3'')) = POST"
    "rq_form (post bob (evening ''3'')) ''seats'' = Some (uni ''3'')"
    "rq_form (post bob (evening ''3'')) ''showtime'' = Some (uni ''18:00'')"
    "rq_form (post bob (evening ''3'')) ''date'' = Some (uni ''2025-01-01'')"
    "rq_form (post bob (evening ''3'')) ''movie_title'' = None"
    by (simp_all add: post_fields evening_def)
  have hu: "rq_form (post bob ?f) ''seats'' = Some (uni ''3'') \<and> py_int (uni ''3'') = Some 3 \<and>
      sqlite_int 3 \<and> sqlite_int 603 \<and> sqlite_int (u_id bob) \<and>
      rq_form (post bob ?f) ''showtime'' = Some (uni ''18:00'') \<and> uni ''18:00'' \<noteq> [] \<and>
      rq_form (post bob ?f) ''date'' = Some (uni ''2025-01-01'') \<and> uni ''2025-01-01'' \<noteq> [] \<and>
      (\<forall>b \<in> set (bookings booked_once).
         booking_key b \<noteq> (u_id bob, 603, uni ''18:00'', uni ''2025-01-01''))"
    using u r key by (simp add: py_int_samples uni_filled rows)
  have hv: "rq_form (post bob (evening ''3'')) ''seats'' = Some (uni ''3'') \<and>
      py_int (uni ''3'') = Some 3 \<and>
      sqlite_int 3 \<and> sqlite_int 603 \<and> sqlite_int (u_id bob) \<and>
      rq_form (post bob (evening ''3'')) ''showtime'' = Some (uni ''18:00'') \<and>
      uni ''18:00'' \<noteq> [] \<and>
      rq_form (post bob (evening ''3'')) ''date'' = Some (uni ''2025-01-01'') \<and>
      uni ''2025-01-01'' \<noteq> [] \<and>
      (\<forall>b \<in> set (bookings booked_once).
         booking_key b \<noteq> (u_id bob, 603, uni ''18:00'', uni ''2025-01-01''))"
    using v r key by (simp add: py_int_samples uni_filled rows)
  from booking_title_from_form [OF u(1,2), where w = online and k = 603 and s = booked_once] hu
  obtain row where "bookings (snd (movie_page (post bob ?f) online 603 booked_once)) =
      bookings booked_once @ [row]" "b_movie_title row = uni ''Alien''"
    using alien by (auto simp: u(6))
  with titles
  have one: "map b_movie_title (bookings (snd (movie_page (post bob ?f) online 603 booked_once))) =
     [uni ''Unknown'', uni ''Alien'']"
    by simp
  from booking_title_from_form [OF v(1,2), where w = offline and k = 603 and s = booked_once] hv
  obtain row' where "bookings (snd (movie_page (post bob (evening ''3'')) offline 603
      booked_once)) = bookings booked_once @ [row']" "b_movie_title row' = uni ''Unknown''"
    by (auto simp: v(6))
  with titles
  have two: "map b_movie_title (bookings (snd (movie_page (post bob (evening ''3'')) offline 603
      booked_once))) = [uni ''Unknown'', uni ''Unknown'']"
    by simp
  from u(1,2) py_int_samples(3) r rows key one two show ?thesis by blast
qed


text \<open>
  Against claim C10 as stated: a complete form with two seats for the movie identifier
  9223372036854775808, which the route accepts, with no row in the table and no movie
  details to be had. The duplicate query raises \<^verbatim>\<open>OverflowError\<close> and no booking is
  created. The same happens at the commit when the seats are 9223372036854775808.
\<close>

theorem booking_overflow_not_committed:
  "py_int (uni ''2'') = Some 2 \<and> bookings initial = [] \<and>
   fst (get_movie_details (w_detail offline) (w_write offline) 9223372036854775808
          (cache initial)) = Inr JNull \<and>
   movie_page (post alice (evening ''2'')) offline 9223372036854775808 initial =
     (Inl OverflowError, initial) \<and>
   py_int (uni ''9223372036854775808'') = Some 9223372036854775808 \<and>
   movie_page (post alice (evening ''9223372036854775808'')) offline 603 initial =
     (Inl OverflowError, initial)"
proof -
  have two: "uni ''2'' \<noteq> []" by (simp add: uni_def)
  with movie_page_post_overflow_query [of "evening ''2''" "uni ''2''" "uni ''18:00''"
      "uni ''2025-01-01''" 9223372036854775808 alice 2000 "[]"]
  have p: "movie_page_post alice 9223372036854775808 (evening ''2'') 2000 [] =
      (Inl OverflowError, [])"
    by (simp add: evening_fields sqlite_int_samples uni_filled)
  from movie_page_post_overflow_seats [of "evening ''9223372036854775808''"
      "uni ''9223372036854775808''" 9223372036854775808 "uni ''18:00''" "uni ''2025-01-01''"
      603 alice "[]" 2000]
  have q: "movie_page_post alice 603 (evening ''9223372036854775808'') 2000 [] =
      (Inl OverflowError, [])"
    by (simp add: evening_fields py_int_samples sqlite_int_samples uni_filled user_fields)
  have a: "movie_page (post alice (evening ''2'')) offline 9223372036854775808 initial =
      (Inl OverflowError, initial)"
    by (simp add: movie_page_def post_fields initial_fields world_fields p initial_def)
  have b: "movie_page (post alice (evening ''9223372036854775808'')) offline 603 initial =
      (Inl OverflowError, initial)"
    by (simp add: movie_page_def post_fields initial_fields world_fields q initial_def)
  have g: "fst (get_movie_details (w_detail offline) (w_write offline) 9223372036854775808
          (cache initial)) = Inr JNull"
    by (simp add: initial_fields offline_nothing)
  from py_int_samples(2,5) initial_fields(1) g a b show ?thesis by blast
qed

text \<open>
  Claim C10, amended. On a \<^verbatim>\<open>POST\<close> with a complete form, seats that \<^verbatim>\<open>int\<close> accepts,
  no row yet for the tuple, and seats, movie identifier and user identifier inside the
  store's signed 64-bit integers, the row is committed before \<^verbatim>\<open>get_movie_details\<close> is
  called: the table has the new row whatever the lookup does, and when the lookup returns
  nothing the answer is the page that says the details are unavailable.
\<close>

theorem booking_committed_before_details:
  assumes "rq_user rq = Some cu" and "rq_method rq = POST"
    and "rq_form rq ''seats'' = Some se" and "py_int se = Some n" and "sqlite_int n"
    and "rq_form rq ''showtime'' = Some sh" and "sh \<noteq> []"
    and "rq_form rq ''date'' = Some d" and "d \<noteq> []"
    and "sqlite_int k" and "sqlite_int (u_id cu)"
    and "\<forall>b \<in> set (bookings s). booking_key b \<noteq> (u_id cu, k, sh, d)"
  shows "(\<exists>i. bookings (snd (movie_page rq w k s)) =
           bookings s @ [\<lparr>b_id = i, b_user_id = u_id cu, b_movie_id = k,
                           b_movie_title = or_default (rq_form rq ''movie_title'') (uni ''Unknown''),
                           b_name = u_name cu, b_email = u_email cu, b_seats = n,
                           b_showtime = sh, b_date = d, b_created_at = w_now w\<rparr>]) \<and>
         (\<forall>movie. fst (get_movie_details (w_detail w) (w_write w) k (cache s)) = Inr movie \<and>
            \<not> py_truthy movie \<longrightarrow>
            fst (movie_page rq w k s) =
              Inr (MovieHtml JNull False [] (Some DetailsUnavailable) (Some ''error'')))"
  using movie_page_commits [OF assms, of w] by auto

theorem booking_committed_before_details_witness:
  "rq_user (post alice (evening ''2'')) = Some alice \<and>
   rq_method (post alice (evening ''2'')) = POST \<and>
   py_int (uni ''2'') = Some 2 \<and> sqlite_int 2 \<and> sqlite_int 603 \<and> sqlite_int (u_id alice) \<and>
   bookings initial = [] \<and>
   fst (get_movie_details (w_detail offline) (w_write offline) 603 (cache initial)) = Inr JNull \<and>
   fst (movie_page (post alice (evening ''2'')) offline 603 initial) =
     Inr (MovieHtml JNull False [] (Some DetailsUnavailable) (Some ''error'')) \<and>
   map b_seats (bookings (snd (movie_page (post alice (evening ''2'')) offline 603 initial))) = [2] \<and>
   map b_movie_id (bookings (snd (movie_page (post alice (evening ''2'')) offline 603 initial))) =
     [603]"
proof -
  note u = post_fields [of alice "evening ''2''"]
  have f: "rq_form (post alice (evening ''2'')) ''seats'' = Some (uni ''2'')"
    "rq_form (post alice (evening ''2'')) ''showtime'' = Some (uni ''18:00'')"
    "rq_form (post alice (evening ''2'')) ''date'' = Some (uni ''2025-01-01'')"
    by (simp_all add: post_fields evening_fields)
  note i = initial_fields
  have r: "sqlite_int (u_id alice)" by (simp add: user_fields sqlite_int_samples)
  have fresh: "\<forall>b \<in> set (bookings initial).
      booking_key b \<noteq> (u_id alice, 603, uni ''18:00'', uni ''2025-01-01'')"
    by (simp add: i)
  have g: "fst (get_movie_details (w_detail offline) (w_write offline) 603 (cache initial)) = Inr JNull"
    by (simp add: i offline_nothing)
  from booking_committed_before_details [OF u(1,2) f(1) py_int_samples(2) sqlite_int_samples(3)
      f(2) uni_filled(1) f(3) uni_filled(2) sqlite_int_samples(6) r fresh, where w = offline] g
  have "fst (movie_page (post alice (evening ''2'')) offline 603 initial) =
     Inr (MovieHtml JNull False [] (Some DetailsUnavailable) (Some ''error'')) \<and>
   map b_seats (bookings (snd (movie_page (post alice (evening ''2'')) offline 603 initial))) = [2] \<and>
   map b_movie_id (bookings (snd (movie_page (post alice (evening ''2'')) offline 603 initial))) =
     [603]"
    by (auto simp: i)
  with u(1,2) py_int_samples(2) sqlite_int_samples(3,6) r i(1) g show ?thesis by blast
qed


end
